theory Spec2Isabelle
  imports Complex_Main
begin

section \<open>Phone normalisation\<close>

text \<open>
  Both route handlers carry their own copy of the normaliser. The regular expression
  \<^verbatim>\<open>/\D/g\<close> removes every character that is not one of the ten ASCII digits.
\<close>

definition is_digit :: "char \<Rightarrow> bool" where
  "is_digit c = (c \<in> set ''0123456789'')"

definition strip_non_digits :: "string \<Rightarrow> string" where
  \<comment> \<open>\<^verbatim>\<open>s.replace(/\D/g, '')\<close>\<close>
  "strip_non_digits s = filter is_digit s"

definition startsWith :: "string \<Rightarrow> string \<Rightarrow> bool" where
  "startsWith s p = (take (length p) s = p)"

definition is_space :: "char \<Rightarrow> bool" where
  \<comment> \<open>the white space and line terminators that \<^verbatim>\<open>String.prototype.trim\<close> removes,
      as far as they are single characters here\<close>
  "is_space c = (c \<in> set [CHR 0x09, CHR 0x0A, CHR 0x0B, CHR 0x0C, CHR 0x0D, CHR 0x20, CHR 0xA0])"

definition trim :: "string \<Rightarrow> string" where
  "trim s = rev (dropWhile is_space (rev (dropWhile is_space s)))"

text \<open>\<^verbatim>\<open>normalizePhone\<close> of \<^verbatim>\<open>app/api/lalamove/[action]/route.ts\<close> (inside \<^verbatim>\<open>handleOrder\<close>).\<close>

definition normalizePhone :: "string \<Rightarrow> string" where
  "normalizePhone phone =
     (if phone = [] then phone
      else let digits = strip_non_digits phone in
        if digits = [] then phone
        else if startsWith digits ''63'' then ''+'' @ digits
        else if startsWith digits ''0'' then ''+63'' @ drop 1 digits
        else if startsWith digits ''9'' then ''+63'' @ digits
        else ''+63'' @ digits)"

text \<open>
  \<^verbatim>\<open>normalizePhoneNumber\<close> of \<^verbatim>\<open>app/api/orders/[id]/route.ts\<close>. Its argument is optional and
  its result is \<^verbatim>\<open>string | undefined\<close>: \<open>None\<close> stands for \<^verbatim>\<open>undefined\<close>.
\<close>

definition normalizePhoneNumber :: "string option \<Rightarrow> string option" where
  "normalizePhoneNumber phone =
     (case phone of
        None \<Rightarrow> None
      | Some p \<Rightarrow>
          if p = [] then None
          else let trimmed = trim p in
            if trimmed = [] then None
            else let digits = strip_non_digits trimmed in
              if digits = [] then None
              else if startsWith digits ''63'' then Some (''+'' @ digits)
              else if startsWith digits ''0'' then Some (''+63'' @ drop 1 digits)
              else if startsWith digits ''9'' then Some (''+63'' @ digits)
              else Some (''+63'' @ digits))"

section \<open>JavaScript values\<close>

text \<open>
  Request bodies and upstream responses are JSON documents that the handlers read
  without checking their shape, so they are modelled as untyped values. A finite number
  is a real; the three non-finite doubles are kept apart. The one value that no JSON
  document holds is \<open>JBuiltin k\<close>: the member \<open>k\<close> that every plain object inherits from
  \<^verbatim>\<open>Object.prototype\<close> (a function, or for \<^verbatim>\<open>__proto__\<close> the prototype object itself).
\<close>

datatype number = NaN | PosInfinity | NegInfinity | Finite real

datatype jsval =
    JUndefined
  | JNull
  | JBool bool
  | JNum number
  | JStr string
  | JArr "jsval list"
  | JObj "(string \<times> jsval) list"
  | JBuiltin string

fun truthy :: "jsval \<Rightarrow> bool" where
  "truthy JUndefined = False"
| "truthy JNull = False"
| "truthy (JBool b) = b"
| "truthy (JNum n) = (n \<noteq> NaN \<and> n \<noteq> Finite 0)"
| "truthy (JStr s) = (s \<noteq> [])"
| "truthy (JArr xs) = True"
| "truthy (JObj kvs) = True"
| "truthy (JBuiltin k) = True"

definition js_or :: "jsval \<Rightarrow> jsval \<Rightarrow> jsval" where
  \<comment> \<open>\<^verbatim>\<open>a || b\<close>\<close>
  "js_or a b = (if truthy a then a else b)"

definition getField :: "(string \<times> jsval) list \<Rightarrow> string \<Rightarrow> jsval" where
  \<comment> \<open>reading a property of a record; a missing key reads as \<^verbatim>\<open>undefined\<close>\<close>
  "getField kvs k = (case map_of kvs k of None \<Rightarrow> JUndefined | Some v \<Rightarrow> v)"

fun getProp :: "jsval \<Rightarrow> string \<Rightarrow> jsval" where
  \<comment> \<open>\<^verbatim>\<open>v?.k\<close> for the data keys the handlers read (none of them is inherited from a
      prototype): \<^verbatim>\<open>undefined\<close> on everything that is not an object with that key\<close>
  "getProp (JObj kvs) k = getField kvs k"
| "getProp v k = JUndefined"

definition index_key :: "nat \<Rightarrow> string" where
  \<comment> \<open>the property name of an array index; the handlers read the indices 0 and 1 only\<close>
  "index_key i = (if i = 0 then ''0'' else ''1'')"

fun elem :: "jsval \<Rightarrow> nat \<Rightarrow> jsval" where
  \<comment> \<open>\<^verbatim>\<open>v[i]\<close> on a value that is neither \<^verbatim>\<open>null\<close> nor \<^verbatim>\<open>undefined\<close>\<close>
  "elem (JArr xs) i = (if i < length xs then xs ! i else JUndefined)"
| "elem (JStr s) i = (if i < length s then JStr [s ! i] else JUndefined)"
| "elem (JObj kvs) i = getField kvs (index_key i)"
| "elem v i = JUndefined"

definition hasProp :: "jsval \<Rightarrow> string \<Rightarrow> bool" where
  \<comment> \<open>the object has an own property of that name\<close>
  "hasProp v k = (case v of JObj kvs \<Rightarrow> map_of kvs k \<noteq> None | _ \<Rightarrow> False)"

definition nullish :: "jsval \<Rightarrow> bool" where
  "nullish v = (v = JNull \<or> v = JUndefined)"

fun join :: "string \<Rightarrow> string list \<Rightarrow> string" where
  "join sep [] = []"
| "join sep [x] = x"
| "join sep (x # y # ys) = x @ sep @ join sep (y # ys)"

section \<open>Market language table\<close>

text \<open>
  \<^verbatim>\<open>getLanguageForMarket\<close> indexes an object literal with the market and falls back to the
  default when the result is falsy. The literal has seven own entries; being a plain
  object, it also answers to the names it inherits from \<^verbatim>\<open>Object.prototype\<close>, with a value
  that is truthy and not a string.
\<close>

definition language_table :: "(string \<times> string) list" where
  "language_table =
     [(''HK'', ''en_HK''), (''SG'', ''en_SG''), (''TH'', ''th_TH''), (''PH'', ''en_PH''),
      (''TW'', ''zh_TW''), (''MY'', ''ms_MY''), (''VN'', ''vi_VN'')]"

definition object_prototype_keys :: "string list" where
  "object_prototype_keys =
     [''constructor'', ''hasOwnProperty'', ''isPrototypeOf'', ''propertyIsEnumerable'',
      ''toLocaleString'', ''toString'', ''valueOf'', ''__proto__'', ''__defineGetter__'',
      ''__defineSetter__'', ''__lookupGetter__'', ''__lookupSetter__'']"

definition table_lookup :: "string \<Rightarrow> jsval" where
  \<comment> \<open>\<^verbatim>\<open>map[market]\<close>: an own entry, else an inherited member, else \<^verbatim>\<open>undefined\<close>\<close>
  "table_lookup market =
     (case map_of language_table market of
        Some l \<Rightarrow> JStr l
      | None \<Rightarrow> if market \<in> set object_prototype_keys then JBuiltin market else JUndefined)"

definition getLanguageForMarket :: "string \<Rightarrow> jsval" where
  "getLanguageForMarket market = js_or (table_lookup market) (JStr ''en_US'')"

section \<open>The runtime and the world\<close>

text \<open>
  What the platform and the network supply is a parameter of the model: the clock (its
  n-th reading), the upstream aggregator (its answer to a request, given how many requests
  were sent before), the process environment, HMAC-SHA256 with hex encoding, the JSON
  parser and serialiser (\<open>None\<close> is a \<^verbatim>\<open>SyntaxError\<close>), number formatting and parsing,
  the source text of a built-in function, and \<^verbatim>\<open>Date.parse\<close> (\<open>None\<close> is an invalid date).
\<close>

datatype exn = MissingEnvVar string | FetchFailed | JsonSyntaxError | TypeError | RangeError

record http_request =
  req_url :: string
  req_method :: string
  req_headers :: "(string \<times> string) list"
  req_body :: "string option"

datatype fetch_outcome = Rejected | Response nat string

record runtime =
  clock :: "nat \<Rightarrow> int"
  upstream :: "nat \<Rightarrow> http_request \<Rightarrow> fetch_outcome"
  env_vars :: "string \<Rightarrow> string option"
  hmac_sha256_hex :: "string \<Rightarrow> string \<Rightarrow> string"
  json_parse :: "string \<Rightarrow> jsval option"
  json_stringify :: "jsval \<Rightarrow> string"
  number_to_string :: "number \<Rightarrow> string"
  string_to_number :: "string \<Rightarrow> number"
  date_parse :: "string \<Rightarrow> int option"
  to_fixed :: "real \<Rightarrow> nat \<Rightarrow> string"
  builtin_to_string :: "string \<Rightarrow> string"

text \<open>The effects of a handler: the clock readings it took and the requests it sent upstream.\<close>

record world =
  clock_reads :: nat
  sent :: "http_request list"

text \<open>
  Conversion to a primitive can throw. A JSON object has no callable member of its own, so
  an own key \<^verbatim>\<open>toString\<close> hides the inherited method: the conversion finds no callable
  \<^verbatim>\<open>toString\<close>, gets the object itself from \<^verbatim>\<open>valueOf\<close> (or finds no callable \<^verbatim>\<open>valueOf\<close>
  either) and ends in a \<^verbatim>\<open>TypeError\<close>. An array converts its elements in turn, so it throws
  when one of them does. In the three conversions below \<open>None\<close> and \<open>DateThrows\<close> stand for
  that \<^verbatim>\<open>TypeError\<close>.
\<close>

fun toStr :: "runtime \<Rightarrow> jsval \<Rightarrow> string option" where
  \<comment> \<open>\<^verbatim>\<open>String(v)\<close> and template interpolation\<close>
  "toStr rt JUndefined = Some ''undefined''"
| "toStr rt JNull = Some ''null''"
| "toStr rt (JBool b) = Some (if b then ''true'' else ''false'')"
| "toStr rt (JNum n) = Some (number_to_string rt n)"
| "toStr rt (JStr s) = Some s"
| "toStr rt (JArr xs) =
     map_option (join '','') (those (map (\<lambda>x. if nullish x then Some [] else toStr rt x) xs))"
| "toStr rt (JObj kvs) =
     (if map_of kvs ''toString'' \<noteq> None then None else Some ''[object Object]'')"
| "toStr rt (JBuiltin k) =
     Some (if k = ''__proto__'' then ''[object Object]'' else builtin_to_string rt k)"

definition toNumber :: "runtime \<Rightarrow> jsval \<Rightarrow> number option" where
  \<comment> \<open>\<^verbatim>\<open>Number(v)\<close>; an object, an array or a function is converted through its string\<close>
  "toNumber rt v =
     (case v of
        JUndefined \<Rightarrow> Some NaN
      | JNull \<Rightarrow> Some (Finite 0)
      | JBool b \<Rightarrow> Some (Finite (if b then 1 else 0))
      | JNum n \<Rightarrow> Some n
      | JStr s \<Rightarrow> Some (string_to_number rt s)
      | _ \<Rightarrow> map_option (string_to_number rt) (toStr rt v))"

definition time_clip :: "real \<Rightarrow> int option" where
  \<comment> \<open>a time value is an integer of magnitude at most 8.64e15, truncated towards zero\<close>
  "time_clip r =
     (if \<bar>r\<bar> > 8640000000000000 then None
      else Some (if r < 0 then - \<lfloor>- r\<rfloor> else \<lfloor>r\<rfloor>))"

datatype date_value = DateThrows | InvalidDate | TimeValue int

definition parsed_date :: "runtime \<Rightarrow> string \<Rightarrow> date_value" where
  \<comment> \<open>the date of a string; the empty string is not a date\<close>
  "parsed_date rt s =
     (if s = [] then InvalidDate
      else case date_parse rt s of None \<Rightarrow> InvalidDate | Some t \<Rightarrow> TimeValue t)"

definition clipped_date :: "number \<Rightarrow> date_value" where
  "clipped_date n =
     (case n of
        Finite r \<Rightarrow> (case time_clip r of None \<Rightarrow> InvalidDate | Some t \<Rightarrow> TimeValue t)
      | _ \<Rightarrow> InvalidDate)"

definition date_of :: "runtime \<Rightarrow> jsval \<Rightarrow> date_value" where
  \<comment> \<open>\<^verbatim>\<open>new Date(v)\<close>: a string is parsed, any other primitive is taken as a number of
      milliseconds, and an object, an array or a function is converted to its string first\<close>
  "date_of rt v =
     (case v of
        JUndefined \<Rightarrow> InvalidDate
      | JNull \<Rightarrow> TimeValue 0
      | JBool b \<Rightarrow> TimeValue (if b then 1 else 0)
      | JNum n \<Rightarrow> clipped_date n
      | JStr s \<Rightarrow> parsed_date rt s
      | _ \<Rightarrow> (case toStr rt v of None \<Rightarrow> DateThrows | Some s \<Rightarrow> parsed_date rt s))"

section \<open>Signer and upstream client\<close>

definition API_BASE_URL :: string where
  "API_BASE_URL = ''https://rest.lalamove.com/v3''"

definition API_SANDBOX_URL :: string where
  "API_SANDBOX_URL = ''https://rest.sandbox.lalamove.com/v3''"

definition CRLF :: string where
  "CRLF = [CHR 0x0D, CHR 0x0A]"

definition getEnv :: "runtime \<Rightarrow> string \<Rightarrow> exn + string" where
  "getEnv rt key =
     (case env_vars rt key of
        None \<Rightarrow> Inl (MissingEnvVar key)
      | Some v \<Rightarrow> if v = [] then Inl (MissingEnvVar key) else Inr v)"

definition signPayload ::
  "runtime \<Rightarrow> string \<Rightarrow> string \<Rightarrow> string \<Rightarrow> string \<Rightarrow> world \<Rightarrow> (string \<times> string) \<times> world" where
  \<comment> \<open>returns the timestamp and the signature\<close>
  "signPayload rt method path body secret w =
     (let timestamp = number_to_string rt (Finite (real_of_int (clock rt (clock_reads w))));
          message = timestamp @ CRLF @ method @ CRLF @ path @ CRLF @ CRLF @ body;
          signature = hmac_sha256_hex rt secret message
      in ((timestamp, signature), w\<lparr>clock_reads := Suc (clock_reads w)\<rparr>))"

definition buildUpstreamUrl :: "string \<Rightarrow> bool \<Rightarrow> string" where
  "buildUpstreamUrl path sandbox = (if sandbox then API_SANDBOX_URL else API_BASE_URL) @ path"

text \<open>
  \<^verbatim>\<open>proxyRequest\<close> either throws (\<open>Inl\<close>) or returns one of its two result objects:
  \<^verbatim>\<open>{ error, status }\<close> or \<^verbatim>\<open>{ data }\<close>.
\<close>

datatype proxy_result = UpstreamError string nat | UpstreamData jsval

definition response_ok :: "nat \<Rightarrow> bool" where
  "response_ok status = (200 \<le> status \<and> status \<le> 299)"

text \<open>The signed request that \<^verbatim>\<open>proxyRequest\<close> hands to \<^verbatim>\<open>fetch\<close> (lines 102 to 118).\<close>

definition upstreamRequest ::
  "runtime \<Rightarrow> string \<Rightarrow> string \<Rightarrow> string \<Rightarrow> jsval \<Rightarrow> string \<Rightarrow> bool \<Rightarrow> string \<Rightarrow> world
     \<Rightarrow> http_request \<times> world" where
  "upstreamRequest rt secret apiKey path payload market sandbox method w =
     (let bodyString = (if method = ''GET'' then [] else json_stringify rt payload);
          signaturePath = ''/v3'' @ path;
          ((timestamp, signature), w1) = signPayload rt method signaturePath bodyString secret w;
          upstreamUrl = buildUpstreamUrl path sandbox
      in (\<lparr> req_url = upstreamUrl, req_method = method,
            req_headers =
              [(''Content-Type'', ''application/json; charset=utf-8''),
               (''Market'', market),
               (''Authorization'', ''hmac '' @ apiKey @ '':'' @ timestamp @ '':'' @ signature),
               (''Accept'', ''application/json'')],
            req_body = (if method \<noteq> ''GET'' then Some bodyString else None) \<rparr>, w1))"

definition proxyRequest ::
  "runtime \<Rightarrow> string \<Rightarrow> jsval \<Rightarrow> string \<Rightarrow> bool \<Rightarrow> string \<Rightarrow> world
     \<Rightarrow> (exn + proxy_result) \<times> world" where
  "proxyRequest rt path payload market sandbox method w =
     (case getEnv rt ''LALAMOVE_API_SECRET'' of
        Inl e \<Rightarrow> (Inl e, w)
      | Inr secret \<Rightarrow>
     (case getEnv rt ''LALAMOVE_API_KEY'' of
        Inl e \<Rightarrow> (Inl e, w)
      | Inr apiKey \<Rightarrow>
     (let (request, w1) = upstreamRequest rt secret apiKey path payload market sandbox method w;
          w2 = w1\<lparr>sent := sent w1 @ [request]\<rparr>
      in case upstream rt (length (sent w1)) request of
           Rejected \<Rightarrow> (Inl FetchFailed, w2)
         | Response status responseBody \<Rightarrow>
             if \<not> response_ok status
             then (Inr (UpstreamError
                     (if responseBody = [] then ''Lalamove upstream error'' else responseBody)
                     status), w2)
             else (case json_parse rt responseBody of
                     None \<Rightarrow> (Inl JsonSyntaxError, w2)
                   | Some v \<Rightarrow> (Inr (UpstreamData v), w2)))))"

section \<open>Quote and order handlers\<close>

record DeliveryStoreConfig =
  market :: string
  serviceType :: string
  sandbox :: bool
  storeName :: string
  storePhone :: string
  storeAddress :: string
  storeLatitude :: number
  storeLongitude :: number

text \<open>
  A handler either answers with \<^verbatim>\<open>respond(body, status)\<close> or lets an exception escape to
  the framework.
\<close>

datatype handler_result = Responded nat jsval | Raised exn

definition respond :: "jsval \<Rightarrow> nat \<Rightarrow> handler_result" where
  \<comment> \<open>\<^verbatim>\<open>NextResponse.json(body, { status })\<close>: building the response throws a \<^verbatim>\<open>RangeError\<close>
      for a status outside 200 to 599 and a \<^verbatim>\<open>TypeError\<close> for a body with one of the
      statuses that allow none\<close>
  "respond body status =
     (if status < 200 \<or> 599 < status then Raised RangeError
      else if status = 204 \<or> status = 205 \<or> status = 304 then Raised TypeError
      else Responded status body)"

definition error_body :: "string \<Rightarrow> jsval" where
  \<comment> \<open>\<^verbatim>\<open>{ error: msg }\<close>\<close>
  "error_body msg = JObj [(''error'', JStr msg)]"

definition status_or_500 :: "nat \<Rightarrow> nat" where
  \<comment> \<open>\<^verbatim>\<open>result.status || 500\<close>\<close>
  "status_or_500 status = (if status = 0 then 500 else status)"

definition stringField :: "runtime \<Rightarrow> (string \<times> jsval) list \<Rightarrow> string \<Rightarrow> string option" where
  \<comment> \<open>\<^verbatim>\<open>String(body.k || '')\<close>; \<open>None\<close> when the conversion throws\<close>
  "stringField rt body k = toStr rt (js_or (getField body k) (JStr []))"

definition createStops :: "runtime \<Rightarrow> DeliveryStoreConfig \<Rightarrow> string \<Rightarrow> number \<Rightarrow> number \<Rightarrow> jsval" where
  "createStops rt config deliveryAddress lat lng =
     JArr
      [JObj [(''coordinates'',
                JObj [(''lat'', JStr (number_to_string rt (storeLatitude config))),
                      (''lng'', JStr (number_to_string rt (storeLongitude config)))]),
             (''address'', JStr (storeAddress config))],
       JObj [(''coordinates'',
                JObj [(''lat'', JStr (number_to_string rt lat)),
                      (''lng'', JStr (number_to_string rt lng))]),
             (''address'', JStr deliveryAddress)]]"

definition quotePayload :: "runtime \<Rightarrow> DeliveryStoreConfig \<Rightarrow> string \<Rightarrow> number \<Rightarrow> number \<Rightarrow> jsval" where
  "quotePayload rt config deliveryAddress lat lng =
     JObj [(''data'',
       JObj [(''serviceType'', JStr (serviceType config)),
             (''language'', getLanguageForMarket (market config)),
             (''stops'', createStops rt config deliveryAddress lat lng),
             (''item'',
                JObj [(''quantity'', JStr ''1''),
                      (''weight'', JStr ''LESS_THAN_3_KG''),
                      (''categories'', JArr [JStr ''FOOD_DELIVERY'']),
                      (''handlingInstructions'', JArr [JStr ''KEEP_UPRIGHT''])])])]"

definition handleQuote ::
  "runtime \<Rightarrow> (string \<times> jsval) list \<Rightarrow> DeliveryStoreConfig \<Rightarrow> world \<Rightarrow> handler_result \<times> world" where
  "handleQuote rt body config w =
     (case stringField rt body ''deliveryAddress'' of
        None \<Rightarrow> (Raised TypeError, w)
      | Some deliveryAddress \<Rightarrow>
     (case toNumber rt (getField body ''deliveryLat'') of
        None \<Rightarrow> (Raised TypeError, w)
      | Some deliveryLat \<Rightarrow>
     (case toNumber rt (getField body ''deliveryLng'') of
        None \<Rightarrow> (Raised TypeError, w)
      | Some deliveryLng \<Rightarrow>
         if deliveryAddress = [] \<or> deliveryLat = NaN \<or> deliveryLng = NaN
         then (respond (error_body ''Missing delivery fields'') 400, w)
         else
           (case proxyRequest rt ''/quotations''
                   (quotePayload rt config deliveryAddress deliveryLat deliveryLng)
                   (market config) (sandbox config) ''POST'' w of
              (Inl e, w') \<Rightarrow> (Raised e, w')
            | (Inr (UpstreamError err status), w') \<Rightarrow>
                (respond (error_body err) (status_or_500 status), w')
            | (Inr (UpstreamData d), w') \<Rightarrow>
                if nullish d then (Raised TypeError, w')
                else
                  (let dd = getProp d ''data'' in
                   (respond
                      (JObj [(''quotationId'', getProp dd ''quotationId''),
                             (''price'', getProp (getProp dd ''priceBreakdown'') ''total''),
                             (''currency'', getProp (getProp dd ''priceBreakdown'') ''currency''),
                             (''expiresAt'', getProp dd ''expiresAt'')]) 200, w'))))))"

text \<open>
  \<^verbatim>\<open>handleOrder\<close> is one long function; the model cuts it at its comments. Inside its
  \<^verbatim>\<open>try\<close> block a piece of code throws, returns a response from the handler, or lets
  control go on with a value.
\<close>

datatype 'a step = is_Throw: Throw exn | is_Return: Return handler_result | is_Next: Next 'a

definition returning :: "handler_result \<Rightarrow> 'a step" where
  \<comment> \<open>\<^verbatim>\<open>return respond(...)\<close> inside the \<^verbatim>\<open>try\<close> block: an exception of \<^verbatim>\<open>respond\<close> is
      thrown there\<close>
  "returning r = (case r of Raised e \<Rightarrow> Throw e | Responded status body \<Rightarrow> Return r)"

text \<open>The expiry check (lines 264 to 281).\<close>

definition checkExpiry :: "runtime \<Rightarrow> int \<Rightarrow> jsval \<Rightarrow> unit step" where
  "checkExpiry rt now expiresAt =
     (if \<not> truthy expiresAt then Next ()
      else
        (case date_of rt expiresAt of
           DateThrows \<Rightarrow> Throw TypeError
         | InvalidDate \<Rightarrow> Next ()
         | TimeValue expirationTime \<Rightarrow>
             if now > expirationTime
             then (case toStr rt expiresAt of
                     None \<Rightarrow> Throw TypeError
                   | Some shown \<Rightarrow>
                       returning (respond (error_body
                         (''Quotation has expired. Expired at '' @ shown @
                          ''. Please request a new quotation.'')) 400))
             else Next ()))"

text \<open>
  The schedule check (lines 283 to 337) leaves \<^verbatim>\<open>shouldUseScheduleAt\<close>. An invalid date
  compares false with everything, which takes the branch of a schedule in the future.
\<close>

definition checkSchedule :: "runtime \<Rightarrow> int \<Rightarrow> jsval \<Rightarrow> bool step" where
  "checkSchedule rt now scheduleAt =
     (if \<not> truthy scheduleAt then Next False
      else
        (case date_of rt scheduleAt of
           DateThrows \<Rightarrow> Throw TypeError
         | InvalidDate \<Rightarrow> Next True
         | TimeValue scheduleTime \<Rightarrow>
             (let timeDiff = scheduleTime - now;
                  minutesDiff = real_of_int timeDiff / (1000 * 60)
              in if scheduleTime < now
                 then (let minutesPast = \<bar>minutesDiff\<bar>
                       in if minutesPast \<le> 10 then Next False
                          else (case toStr rt scheduleAt of
                                  None \<Rightarrow> Throw TypeError
                                | Some shown \<Rightarrow>
                                    returning (respond (error_body
                                      (''Quotation schedule time ('' @ shown @
                                       '') is too far in the past ('' @ to_fixed rt minutesPast 0 @
                                       '' minutes). Please request a new quotation for immediate delivery.''))
                                      400)))
                 else Next True)))"

definition quotationOf :: "jsval \<Rightarrow> jsval" where
  \<comment> \<open>\<^verbatim>\<open>quoteResult.data?.data || quoteResult.data\<close> (line 259)\<close>
  "quotationOf d = js_or (getProp d ''data'') d"

definition stopIdsOf :: "jsval \<Rightarrow> jsval \<times> jsval" where
  \<comment> \<open>the sender and recipient stop ids of a quotation (lines 341 to 343)\<close>
  "stopIdsOf quotation =
     (let stops = js_or (getProp quotation ''stops'')
            (js_or (getProp (getProp quotation ''data'') ''stops'') (JArr []))
      in (js_or (getProp (elem stops 0) ''stopId'') (js_or (getProp (elem stops 0) ''id'') (JStr [])),
          js_or (getProp (elem stops 1) ''stopId'') (js_or (getProp (elem stops 1) ''id'') (JStr []))))"

text \<open>
  What the \<^verbatim>\<open>try\<close> block does with a fetched quotation (lines 264 to 354): the two checks,
  then the stop ids.
\<close>

definition afterFetch :: "runtime \<Rightarrow> int \<Rightarrow> jsval \<Rightarrow> (jsval \<times> jsval \<times> jsval \<times> bool) step" where
  "afterFetch rt now quotation =
     (case checkExpiry rt now (getProp quotation ''expiresAt'') of
        Throw e \<Rightarrow> Throw e
      | Return r \<Rightarrow> Return r
      | Next u \<Rightarrow>
          (let scheduleAt = getProp quotation ''scheduleAt'' in
           case checkSchedule rt now scheduleAt of
             Throw e \<Rightarrow> Throw e
           | Return r \<Rightarrow> Return r
           | Next shouldUseScheduleAt \<Rightarrow>
               (let (sender, recipient) = stopIdsOf quotation
                in if \<not> truthy sender \<or> \<not> truthy recipient
                   then returning (respond (error_body
                     ''Failed to extract stop IDs from quotation. Please check quotation response structure.'')
                     500)
                   else Next (sender, recipient, scheduleAt, shouldUseScheduleAt))))"

text \<open>
  Stop resolution (lines 245 to 359): the caller's stop ids if both are given, otherwise
  the ids of the fetched quotation. The result carries \<^verbatim>\<open>senderStopId\<close>,
  \<^verbatim>\<open>recipientStopId\<close>, \<^verbatim>\<open>quotationScheduleAt\<close> and \<^verbatim>\<open>shouldUseScheduleAt\<close>. Whatever is thrown
  inside the \<^verbatim>\<open>try\<close> block is caught and answered with status 500.
\<close>

definition resolveStops ::
  "runtime \<Rightarrow> (string \<times> jsval) list \<Rightarrow> DeliveryStoreConfig \<Rightarrow> string \<Rightarrow> world
     \<Rightarrow> (handler_result + jsval \<times> jsval \<times> jsval \<times> bool) \<times> world" where
  "resolveStops rt body config quotationId w =
     (let senderStopId = getField body ''senderStopId'';
          recipientStopId = getField body ''recipientStopId''
      in if \<not> (\<not> truthy senderStopId \<or> \<not> truthy recipientStopId)
         then (Inr (senderStopId, recipientStopId, JUndefined, False), w)
         else
           (let tried =
                  (case proxyRequest rt (''/quotations/'' @ quotationId) (JObj [])
                          (market config) (sandbox config) ''GET'' w of
                     (Inl e, w1) \<Rightarrow> (Throw e, w1)
                   | (Inr (UpstreamError err status), w1) \<Rightarrow>
                       (returning (respond (error_body (''Failed to fetch quotation: '' @ err))
                          (status_or_500 status)), w1)
                   | (Inr (UpstreamData d), w1) \<Rightarrow>
                       (afterFetch rt (clock rt (clock_reads w1)) (quotationOf d),
                        w1\<lparr>clock_reads := Suc (clock_reads w1)\<rparr>))
            in case tried of
                 (Throw e, w') \<Rightarrow>
                   (Inl (respond (error_body ''Failed to fetch quotation for stop IDs'') 500), w')
               | (Return r, w') \<Rightarrow> (Inl r, w')
               | (Next resolved, w') \<Rightarrow> (Inr resolved, w')))"

text \<open>The order payload (lines 365 to 391).\<close>

definition orderPayload ::
  "string \<Rightarrow> DeliveryStoreConfig \<Rightarrow> string \<Rightarrow> string \<Rightarrow> (string \<times> jsval) list
     \<Rightarrow> jsval \<Rightarrow> jsval \<Rightarrow> jsval \<Rightarrow> bool \<Rightarrow> jsval" where
  "orderPayload quotationId config recipientName recipientPhone body
      senderStopId recipientStopId quotationScheduleAt shouldUseScheduleAt =
     JObj [(''data'',
       JObj ([(''quotationId'', JStr quotationId),
              (''sender'',
                 JObj [(''stopId'', senderStopId),
                       (''name'', JStr (storeName config)),
                       (''phone'', JStr (normalizePhone (storePhone config)))]),
              (''recipients'',
                 JArr [JObj [(''stopId'', recipientStopId),
                             (''name'', JStr recipientName),
                             (''phone'', JStr (normalizePhone recipientPhone)),
                             (''remarks'', js_or (getField body ''recipientRemarks'') (JStr []))]]),
              (''isPODEnabled'', JBool True),
              (''metadata'', js_or (getField body ''metadata'') (JObj []))]
             @ (if shouldUseScheduleAt \<and> truthy quotationScheduleAt
                then [(''scheduleAt'', quotationScheduleAt)] else [])))]"

text \<open>Submitting the order (lines 402 to 412).\<close>

definition submitOrder ::
  "runtime \<Rightarrow> DeliveryStoreConfig \<Rightarrow> jsval \<Rightarrow> world \<Rightarrow> handler_result \<times> world" where
  "submitOrder rt config payload w =
     (case proxyRequest rt ''/orders'' payload (market config) (sandbox config) ''POST'' w of
        (Inl e, w') \<Rightarrow> (Raised e, w')
      | (Inr (UpstreamError err status), w') \<Rightarrow>
          (respond (error_body err) (status_or_500 status), w')
      | (Inr (UpstreamData d), w') \<Rightarrow>
          if nullish d then (Raised TypeError, w')
          else
            (let dd = getProp d ''data'' in
             (respond
                (JObj [(''orderId'', getProp dd ''orderId''),
                       (''status'', getProp dd ''status''),
                       (''shareLink'', getProp dd ''shareLink''),
                       (''driverId'', getProp dd ''driverId'')]) 200, w')))"

definition handleOrder ::
  "runtime \<Rightarrow> (string \<times> jsval) list \<Rightarrow> DeliveryStoreConfig \<Rightarrow> world \<Rightarrow> handler_result \<times> world" where
  "handleOrder rt body config w =
     (case stringField rt body ''quotationId'' of
        None \<Rightarrow> (Raised TypeError, w)
      | Some quotationId \<Rightarrow>
     (case stringField rt body ''recipientName'' of
        None \<Rightarrow> (Raised TypeError, w)
      | Some recipientName \<Rightarrow>
     (case stringField rt body ''recipientPhone'' of
        None \<Rightarrow> (Raised TypeError, w)
      | Some recipientPhone \<Rightarrow>
         if quotationId = [] \<or> recipientName = [] \<or> recipientPhone = []
         then (respond (error_body ''Missing order fields'') 400, w)
         else
           (case resolveStops rt body config quotationId w of
              (Inl reply, w') \<Rightarrow> (reply, w')
            | (Inr (senderStopId, recipientStopId, quotationScheduleAt, shouldUseScheduleAt), w') \<Rightarrow>
                submitOrder rt config
                  (orderPayload quotationId config recipientName recipientPhone body
                     senderStopId recipientStopId quotationScheduleAt shouldUseScheduleAt) w'))))"

section \<open>Order status updates and the confirmation trigger\<close>

text \<open>
  The \<^verbatim>\<open>orders\<close> table is a map from the order id to the row. Only the columns that the
  status handlers read or write are kept; the nullable courier columns hold whatever JSON
  value was written to them (\<^verbatim>\<open>null\<close> when unset). The table itself never fails: an
  update or a \<^verbatim>\<open>single()\<close> read reports an error exactly when there is no row with the id.
\<close>

record order_row =
  row_id :: string
  order_number :: string
  customer_name :: string
  contact_number :: string
  service_type :: string
  order_status :: string
  lalamove_quotation_id :: jsval
  lalamove_order_id :: jsval
  lalamove_status :: jsval
  lalamove_tracking_url :: jsval

type_synonym orders_table = "string \<Rightarrow> order_row option"

definition validStatuses :: "string list" where
  "validStatuses =
     [''pending'', ''confirmed'', ''preparing'', ''ready'', ''out_for_delivery'', ''completed'',
      ''cancelled'']"

definition valid_status :: "jsval \<Rightarrow> bool" where
  \<comment> \<open>\<^verbatim>\<open>validStatuses.includes(status)\<close>\<close>
  "valid_status v = (case v of JStr s \<Rightarrow> s \<in> set validStatuses | _ \<Rightarrow> False)"

text \<open>
  A background task of the single-order route: the asynchronous function that the handler
  starts without awaiting it. It closes over the order id and the updated row.
\<close>

record lalamove_job =
  job_id :: string
  job_data :: order_row

datatype patch_reply = PatchError nat string | PatchOk order_row | BulkOk nat

definition statusChangingToConfirmed :: "jsval \<Rightarrow> order_row option \<Rightarrow> bool" where
  \<comment> \<open>lines 368 to 373; with no current row the service type test fails\<close>
  "statusChangingToConfirmed status currentOrder =
     (status = JStr ''confirmed'' \<and>
      (case currentOrder of
         None \<Rightarrow> False
       | Some cur \<Rightarrow>
           order_status cur \<noteq> ''confirmed'' \<and> service_type cur = ''delivery'' \<and>
           truthy (lalamove_quotation_id cur) \<and> \<not> truthy (lalamove_order_id cur)))"

definition status_text :: "jsval \<Rightarrow> string" where
  \<comment> \<open>the text of a status that passed \<open>valid_status\<close>\<close>
  "status_text v = (case v of JStr s \<Rightarrow> s | _ \<Rightarrow> [])"

definition applyUpdate :: "order_row \<Rightarrow> jsval \<Rightarrow> jsval \<Rightarrow> jsval \<Rightarrow> jsval \<Rightarrow> order_row" where
  \<comment> \<open>the row after \<^verbatim>\<open>update(updateData)\<close>: a field that is \<^verbatim>\<open>undefined\<close> in the request is
      not part of \<^verbatim>\<open>updateData\<close>\<close>
  "applyUpdate row status lid lstatus lurl =
     (let r1 = (if status \<noteq> JUndefined then row\<lparr>order_status := status_text status\<rparr> else row);
          r2 = (if lid \<noteq> JUndefined then r1\<lparr>lalamove_order_id := lid\<rparr> else r1);
          r3 = (if lstatus \<noteq> JUndefined then r2\<lparr>lalamove_status := lstatus\<rparr> else r2)
      in if lurl \<noteq> JUndefined then r3\<lparr>lalamove_tracking_url := lurl\<rparr> else r3)"

text \<open>
  \<^verbatim>\<open>PATCH /api/orders/[id]\<close>. The result is the response, the table after the request and
  the background tasks started; the response is built before any of them runs.
\<close>

definition PATCH_order ::
  "orders_table \<Rightarrow> string \<Rightarrow> (string \<times> jsval) list
     \<Rightarrow> patch_reply \<times> orders_table \<times> lalamove_job list" where
  "PATCH_order db ident body =
     (let status = getField body ''status'';
          lid = getField body ''lalamove_order_id'';
          lstatus = getField body ''lalamove_status'';
          lurl = getField body ''lalamove_tracking_url''
      in if ident = [] then (PatchError 400 ''Order ID is required'', db, [])
         else if status \<noteq> JUndefined \<and> \<not> valid_status status
         then (PatchError 400 ''Invalid status'', db, [])
         else if status = JUndefined \<and> lid = JUndefined \<and> lstatus = JUndefined \<and> lurl = JUndefined
         then (PatchError 400 ''No fields to update'', db, [])
         else
           (let currentOrder = db ident;
                changing = statusChangingToConfirmed status currentOrder
            in case db ident of
                 None \<Rightarrow> (PatchError 500 ''Failed to update order'', db, [])
               | Some row \<Rightarrow>
                   (let data = applyUpdate row status lid lstatus lurl
                    in (PatchOk data, db(ident \<mapsto> data),
                        if changing then [\<lparr> job_id = ident, job_data = data \<rparr>] else []))))"

text \<open>
  \<^verbatim>\<open>PATCH /api/orders/bulk\<close>: one update of the status column for all the ids. The handler
  starts no background task.
\<close>

fun string_ids :: "jsval list \<Rightarrow> string list option" where
  \<comment> \<open>the ids, if every one of them is a string\<close>
  "string_ids [] = Some []"
| "string_ids (JStr s # vs) = map_option ((#) s) (string_ids vs)"
| "string_ids (v # vs) = None"

definition bulk_update :: "orders_table \<Rightarrow> string list \<Rightarrow> string \<Rightarrow> orders_table" where
  \<comment> \<open>\<^verbatim>\<open>update({ status }).in('id', ids)\<close>\<close>
  "bulk_update db ids s =
     (\<lambda>k. if k \<in> set ids then map_option (\<lambda>row. row\<lparr>order_status := s\<rparr>) (db k) else db k)"

definition PATCH_bulk ::
  "orders_table \<Rightarrow> (string \<times> jsval) list \<Rightarrow> patch_reply \<times> orders_table \<times> lalamove_job list" where
  "PATCH_bulk db body =
     (let ids = getField body ''ids''; status = getField body ''status''
      in case ids of
           JArr vs \<Rightarrow>
             if vs = [] then (PatchError 400 ''Order IDs array is required'', db, [])
             else if \<not> truthy status then (PatchError 400 ''Status is required'', db, [])
             else if \<not> valid_status status then (PatchError 400 ''Invalid status'', db, [])
             else
               (case string_ids vs of
                  None \<Rightarrow> (PatchError 400 ''All order IDs must be strings'', db, [])
                | Some ks \<Rightarrow>
                    (BulkOk (length (filter (\<lambda>k. db k \<noteq> None) (remdups ks))),
                     bulk_update db ks (status_text status), []))
         | _ \<Rightarrow> (PatchError 400 ''Order IDs array is required'', db, []))"

text \<open>
  What the background task needs from outside: the site settings read from the database
  (\<open>None\<close> when the read fails), \<^verbatim>\<open>buildLalamoveConfig\<close> of \<^verbatim>\<open>src/lib/lalamove\<close> (\<open>None\<close> for
  an incomplete configuration), the anonymous key of the environment, and the answer of
  the order endpoint \<^verbatim>\<open>/api/lalamove/order\<close> to a call (\<open>None\<close> when the call fails or the
  response is not ok, otherwise the JSON document of the response).
\<close>

record order_call =
  call_quotationId :: jsval
  call_recipientName :: string
  call_recipientPhone :: string
  call_config :: DeliveryStoreConfig
  call_orderId :: string

record trigger_env =
  getSiteSettings :: "(string \<times> string) list option"
  buildLalamoveConfig :: "(string \<times> string) list \<Rightarrow> DeliveryStoreConfig option"
  anon_key :: "string option"
  order_endpoint :: "order_call \<Rightarrow> jsval option"

text \<open>
  \<^verbatim>\<open>createLalamoveOrder\<close> returns the order id, status and share link of the created courier
  order, or \<^verbatim>\<open>null\<close>; the second component is the list of calls it made to the order
  endpoint. Every exception inside is caught and turned into \<^verbatim>\<open>null\<close>.
\<close>

definition createLalamoveOrder ::
  "trigger_env \<Rightarrow> jsval \<Rightarrow> string \<Rightarrow> string \<Rightarrow> DeliveryStoreConfig \<Rightarrow> string
     \<Rightarrow> (jsval \<times> jsval \<times> jsval) option \<times> order_call list" where
  "createLalamoveOrder env quotationId recipientName recipientPhone config orderId =
     (case anon_key env of
        None \<Rightarrow> (None, [])
      | Some key \<Rightarrow>
          if key = [] then (None, [])
          else
            (let call = \<lparr> call_quotationId = quotationId, call_recipientName = recipientName,
                   call_recipientPhone = normalizePhone recipientPhone,
                   call_config = config\<lparr>storePhone := normalizePhone (storePhone config)\<rparr>,
                   call_orderId = orderId \<rparr>
             in case order_endpoint env call of
                  None \<Rightarrow> (None, [call])
                | Some data \<Rightarrow>
                    if nullish data then (None, [call])
                    else (Some (getProp data ''orderId'', getProp data ''status'',
                                getProp data ''shareLink''), [call])))"

text \<open>
  Running a background task (lines 405 to 443): the table after it and the calls it made
  to the order endpoint.
\<close>

definition runJob :: "trigger_env \<Rightarrow> orders_table \<Rightarrow> lalamove_job \<Rightarrow> orders_table \<times> order_call list" where
  "runJob env db job =
     (let data = job_data job
      in case getSiteSettings env of
           None \<Rightarrow> (db, [])
         | Some siteSettings \<Rightarrow>
             (case buildLalamoveConfig env siteSettings of
                None \<Rightarrow> (db, [])
              | Some lalamoveConfig \<Rightarrow>
                  if \<not> truthy (lalamove_quotation_id data) then (db, [])
                  else
                    (let normalizedPhone =
                           (case normalizePhoneNumber (Some (contact_number data)) of
                              None \<Rightarrow> contact_number data
                            | Some p \<Rightarrow> if p = [] then contact_number data else p)
                     in case createLalamoveOrder env (lalamove_quotation_id data)
                               (customer_name data) normalizedPhone lalamoveConfig (row_id data) of
                          (None, calls) \<Rightarrow> (db, calls)
                        | (Some (orderId, status, shareLink), calls) \<Rightarrow>
                            (case db (job_id job) of
                               None \<Rightarrow> (db, calls)
                             | Some row \<Rightarrow>
                                 (db(job_id job \<mapsto> applyUpdate row JUndefined orderId status shareLink),
                                  calls)))))"

fun runJobs :: "trigger_env \<Rightarrow> orders_table \<Rightarrow> lalamove_job list \<Rightarrow> orders_table \<times> order_call list" where
  \<comment> \<open>the background tasks of a request, run to their end one after the other\<close>
  "runJobs env db [] = (db, [])"
| "runJobs env db (job # jobs) =
     (case runJob env db job of
        (db1, calls1) \<Rightarrow> (case runJobs env db1 jobs of (db2, calls2) \<Rightarrow> (db2, calls1 @ calls2)))"

section \<open>Test doubles\<close>

text \<open>
  A runtime for concrete runs: a clock that stands at 2024-01-01T00:00:00Z, a JSON parser
  given by a table of the documents it knows, a
  date parser for the timestamps of the scenarios, and simple stand-ins for the
  serialiser, the number formatter and the HMAC.
\<close>

definition demo_dates :: "(string \<times> int) list" where
  "demo_dates =
     [(''2023-12-31T23:00:00.000Z'', 1704063600000),
      (''2023-12-31T23:45:00.000Z'', 1704066300000),
      (''2023-12-31T23:55:00.000Z'', 1704066900000),
      (''2024-01-01T01:00:00.000Z'', 1704070800000)]"

definition demo_stringify :: "jsval \<Rightarrow> string" where
  "demo_stringify v = (if getProp (getProp v ''data'') ''scheduleAt'' = JUndefined
     then ''{data}'' else ''{data+scheduleAt}'')"

definition demo_format :: "number \<Rightarrow> string" where
  "demo_format n = (case n of Finite r \<Rightarrow> (if r = 1704067200000 then ''1704067200000'' else ''<number>'')
     | NaN \<Rightarrow> ''NaN'' | PosInfinity \<Rightarrow> ''Infinity'' | NegInfinity \<Rightarrow> ''-Infinity'')"

definition demo_runtime ::
  "(nat \<Rightarrow> http_request \<Rightarrow> fetch_outcome) \<Rightarrow> (string \<times> jsval) list \<Rightarrow> runtime" where
  "demo_runtime up docs =
     \<lparr> clock = (\<lambda>n. 1704067200000),
       upstream = up,
       env_vars = map_of [(''LALAMOVE_API_SECRET'', ''s3cret''), (''LALAMOVE_API_KEY'', ''pk_test'')],
       hmac_sha256_hex = (\<lambda>key message. ''hmac('' @ key @ '','' @ message @ '')''),
       json_parse = map_of docs,
       json_stringify = demo_stringify,
       number_to_string = demo_format,
       string_to_number = (\<lambda>s. NaN),
       date_parse = map_of demo_dates,
       to_fixed = (\<lambda>r digits. if r = 15 then ''15'' else ''<number>''),
       builtin_to_string = (\<lambda>k. ''function '' @ k @ ''() { [native code] }'') \<rparr>"

definition w0 :: world where
  "w0 = \<lparr> clock_reads = 0, sent = [] \<rparr>"

definition demo_config :: DeliveryStoreConfig where
  "demo_config =
     \<lparr> market = ''PH'', serviceType = ''MOTORCYCLE'', sandbox = True,
       storeName = ''Cafe'', storePhone = ''09171234567'',
       storeAddress = ''Manila City Hall, Manila, Philippines'',
       storeLatitude = Finite 14.599512, storeLongitude = Finite 120.984222 \<rparr>"

text \<open>An upstream that answers every request with status 200 and a body that is not JSON.\<close>

definition html_upstream :: "nat \<Rightarrow> http_request \<Rightarrow> fetch_outcome" where
  "html_upstream n r = Response 200 ''<html>''"

text \<open>
  An upstream that answers a GET with the document \<^verbatim>\<open>Q\<close> and everything else with the
  document \<^verbatim>\<open>O\<close>, both with a success status.
\<close>

definition ok_upstream :: "nat \<Rightarrow> http_request \<Rightarrow> fetch_outcome" where
  "ok_upstream n r = (if req_method r = ''GET'' then Response 200 ''Q'' else Response 201 ''O'')"

definition order_doc :: jsval where
  "order_doc = JObj [(''data'',
     JObj [(''orderId'', JStr ''107900701184''), (''status'', JStr ''ASSIGNING_DRIVER''),
           (''shareLink'', JStr ''https://share.sandbox.lalamove.com/x''),
           (''driverId'', JStr '''')])]"

definition quote_doc :: jsval where
  "quote_doc = JObj [(''data'',
     JObj [(''quotationId'', JStr ''1514140994227007571''),
           (''priceBreakdown'', JObj [(''total'', JStr ''98''), (''currency'', JStr ''PHP'')]),
           (''expiresAt'', JStr ''2024-01-01T01:00:00.000Z'')])]"

definition infinite_quote_body :: "(string \<times> jsval) list" where
  "infinite_quote_body =
     [(''deliveryAddress'', JStr ''Glorietta 4, Makati, Philippines''),
      (''deliveryLat'', JNum PosInfinity),
      (''deliveryLng'', JNum (Finite 121.024445))]"

text \<open>An upstream that refuses every request with status 401.\<close>

definition unauthorized_upstream :: "nat \<Rightarrow> http_request \<Rightarrow> fetch_outcome" where
  "unauthorized_upstream n r = Response 401 ''Unauthorized''"

definition empty_address_body :: "(string \<times> jsval) list" where
  "empty_address_body =
     [(''deliveryAddress'', JStr []),
      (''deliveryLat'', JNum (Finite 14.554729)),
      (''deliveryLng'', JNum (Finite 121.024445))]"

text \<open>Quotation documents and order requests of the scenarios.\<close>

definition two_stops :: jsval where
  "two_stops = JArr [JObj [(''stopId'', JStr ''stop-1'')], JObj [(''stopId'', JStr ''stop-2'')]]"

definition quotation_doc :: "string \<Rightarrow> jsval \<Rightarrow> jsval \<Rightarrow> jsval" where
  "quotation_doc expiresAt scheduleAt stops = JObj [(''data'',
     JObj [(''quotationId'', JStr ''1514140994227007571''),
           (''expiresAt'', JStr expiresAt),
           (''scheduleAt'', scheduleAt),
           (''stops'', stops)])]"

definition order_body :: "(string \<times> jsval) list" where
  "order_body =
     [(''quotationId'', JStr ''1514140994227007571''),
      (''recipientName'', JStr ''Juan dela Cruz''),
      (''recipientPhone'', JStr ''09171234567'')]"

definition order_body_with_stops :: "(string \<times> jsval) list" where
  "order_body_with_stops =
     order_body @ [(''senderStopId'', JStr ''stop-1''), (''recipientStopId'', JStr ''stop-2'')]"

definition expired_docs :: "(string \<times> jsval) list" where
  "expired_docs =
     [(''Q'', quotation_doc ''2023-12-31T23:00:00.000Z'' JUndefined two_stops), (''O'', order_doc)]"

definition scheduled_docs :: "string \<Rightarrow> (string \<times> jsval) list" where
  "scheduled_docs scheduleAt =
     [(''Q'', quotation_doc ''2024-01-01T01:00:00.000Z'' (JStr scheduleAt) two_stops),
      (''O'', order_doc)]"

definition no_stops_docs :: "(string \<times> jsval) list" where
  "no_stops_docs =
     [(''Q'', quotation_doc ''2024-01-01T01:00:00.000Z'' JUndefined (JArr [])), (''O'', order_doc)]"

definition one_stop_docs :: "(string \<times> jsval) list" where
  "one_stop_docs =
     [(''Q'', quotation_doc ''2024-01-01T01:00:00.000Z'' JUndefined
               (JArr [JObj [(''stopId'', JStr ''stop-1'')]])),
      (''O'', order_doc)]"

text \<open>
  A delivery order that waits for confirmation, with a quotation and no courier order yet,
  and an environment in which the order endpoint creates the courier order.
\<close>

definition pending_delivery :: order_row where
  "pending_delivery =
     \<lparr> row_id = ''o1'', order_number = ''1001'', customer_name = ''Juan dela Cruz'',
       contact_number = ''09171234567'', service_type = ''delivery'', order_status = ''pending'',
       lalamove_quotation_id = JStr ''1514140994227007571'', lalamove_order_id = JNull,
       lalamove_status = JNull, lalamove_tracking_url = JNull \<rparr>"

definition demo_table :: orders_table where
  "demo_table = [''o1'' \<mapsto> pending_delivery]"

definition demo_trigger_env :: trigger_env where
  "demo_trigger_env =
     \<lparr> getSiteSettings = Some [(''lalamove_market'', ''PH'')],
       buildLalamoveConfig = (\<lambda>settings. Some demo_config),
       anon_key = Some ''anon'',
       order_endpoint = (\<lambda>call. Some (getProp order_doc ''data'')) \<rparr>"

definition confirm_body :: "(string \<times> jsval) list" where
  "confirm_body = [(''status'', JStr ''confirmed'')]"

definition bulk_confirm_body :: "(string \<times> jsval) list" where
  "bulk_confirm_body = [(''ids'', JArr [JStr ''o1'']), (''status'', JStr ''confirmed'')]"

text \<open>
  A quote request whose latitude is an object with a key \<^verbatim>\<open>toString\<close>, and quotations
  whose expiry is such an object.
\<close>

definition unconvertible_latitude_body :: "(string \<times> jsval) list" where
  "unconvertible_latitude_body =
     [(''deliveryAddress'', JStr []),
      (''deliveryLat'', JObj [(''toString'', JNull)]),
      (''deliveryLng'', JNum (Finite 2))]"

definition object_expiry_doc :: "jsval \<Rightarrow> jsval \<Rightarrow> jsval" where
  "object_expiry_doc scheduleAt stops = JObj [(''data'',
     JObj [(''quotationId'', JStr ''1514140994227007571''),
           (''expiresAt'', JObj [(''toString'', JNum (Finite 1))]),
           (''scheduleAt'', scheduleAt),
           (''stops'', stops)])]"

definition object_expiry_docs :: "(string \<times> jsval) list" where
  "object_expiry_docs =
     [(''Q'', object_expiry_doc (JStr ''2023-12-31T23:45:00.000Z'') (JArr [])), (''O'', order_doc)]"

definition expired_scheduled_docs :: "(string \<times> jsval) list" where
  "expired_scheduled_docs =
     [(''Q'', quotation_doc ''2023-12-31T23:00:00.000Z'' (JStr ''2023-12-31T23:55:00.000Z'')
               two_stops),
      (''O'', order_doc)]"

section \<open>Properties of the phone normaliser\<close>

lemma strip_non_digits_idem: "strip_non_digits (strip_non_digits s) = strip_non_digits s"
  by (simp add: strip_non_digits_def)

lemma is_digit_chars:
  "\<not> is_digit CHR ''+''" "is_digit CHR ''6''" "is_digit CHR ''3''"
  by (simp_all add: is_digit_def)

lemma strip_plus_digits:
  "strip_non_digits (''+'' @ strip_non_digits s) = strip_non_digits s"
  by (simp add: strip_non_digits_def is_digit_chars)

lemma strip_plus63_digits:
  "strip_non_digits (''+63'' @ strip_non_digits s) = ''63'' @ strip_non_digits s"
  by (simp add: strip_non_digits_def is_digit_chars)

lemma strip_plus63_drop:
  "strip_non_digits (''+63'' @ drop n (strip_non_digits s)) = ''63'' @ drop n (strip_non_digits s)"
proof -
  have "filter is_digit (drop n (filter is_digit s)) = drop n (filter is_digit s)"
    by (rule filter_True) (auto dest: in_set_dropD)
  then show ?thesis
    by (simp add: strip_non_digits_def is_digit_chars)
qed

lemma normalizePhone_shape:
  "normalizePhone x = x \<and> strip_non_digits x = [] \<or>
   (\<exists>d. normalizePhone x = ''+'' @ d \<and> strip_non_digits (''+'' @ d) = d \<and> startsWith d ''63'')"
  unfolding normalizePhone_def Let_def
  using strip_plus_digits [of x] strip_plus63_digits [of x] strip_plus63_drop [of 1 x]
  by (auto simp: startsWith_def strip_non_digits_def)

lemma normalizePhone_idem: "normalizePhone (normalizePhone x) = normalizePhone x"
proof -
  from normalizePhone_shape [of x] show ?thesis
  proof (elim disjE conjE exE)
    assume "normalizePhone x = x"
    then show ?thesis by simp
  next
    fix d
    assume n: "normalizePhone x = ''+'' @ d"
      and s: "strip_non_digits (''+'' @ d) = d" and p: "startsWith d ''63''"
    from p have "d \<noteq> []" by (auto simp: startsWith_def)
    with s p have "normalizePhone (''+'' @ d) = ''+'' @ d"
      by (simp add: normalizePhone_def Let_def)
    with n show ?thesis by simp
  qed
qed

lemma filter_dropWhile_disjoint:
  assumes "\<And>x. Q x \<Longrightarrow> \<not> P x"
  shows "filter P (dropWhile Q xs) = filter P xs"
  using assms by (induction xs) auto

lemma is_space_not_digit: "is_space c \<Longrightarrow> \<not> is_digit c"
  by (auto simp: is_space_def is_digit_def)

lemma strip_non_digits_trim: "strip_non_digits (trim s) = strip_non_digits s"
proof -
  have "filter is_digit (rev (dropWhile is_space (rev (dropWhile is_space s))))
      = rev (filter is_digit (dropWhile is_space (rev (dropWhile is_space s))))"
    by (simp add: rev_filter)
  also have "\<dots> = rev (filter is_digit (rev (dropWhile is_space s)))"
    by (simp add: filter_dropWhile_disjoint [of is_space is_digit, OF is_space_not_digit])
  also have "\<dots> = filter is_digit (dropWhile is_space s)"
    by (simp add: rev_filter)
  also have "\<dots> = filter is_digit s"
    by (simp add: filter_dropWhile_disjoint [of is_space is_digit, OF is_space_not_digit])
  finally show ?thesis
    by (simp add: trim_def strip_non_digits_def)
qed

lemma strip_non_digits_Nil [simp]: "strip_non_digits [] = []"
  by (simp add: strip_non_digits_def)

lemma normalizePhoneNumber_eq:
  "normalizePhoneNumber (Some p) =
     (if strip_non_digits p = [] then None else Some (normalizePhone p))"
proof (cases "strip_non_digits p = []")
  case True
  then have "trim p \<noteq> [] \<Longrightarrow> strip_non_digits (trim p) = []"
    by (simp add: strip_non_digits_trim)
  with True show ?thesis
    by (simp add: normalizePhoneNumber_def Let_def)
next
  case False
  then have p: "p \<noteq> []" by auto
  from False have t: "trim p \<noteq> []"
    using strip_non_digits_trim [of p] by auto
  from False p t show ?thesis
    by (simp add: normalizePhoneNumber_def normalizePhone_def Let_def strip_non_digits_trim)
qed

lemma normalizePhoneNumber_idem:
  "normalizePhoneNumber (normalizePhoneNumber x) = normalizePhoneNumber x"
proof (cases x)
  case None
  then show ?thesis by (simp add: normalizePhoneNumber_def)
next
  case (Some p)
  show ?thesis
  proof (cases "strip_non_digits p = []")
    case True
    with Some show ?thesis
      by (simp add: normalizePhoneNumber_eq) (simp add: normalizePhoneNumber_def)
  next
    case False
    with normalizePhone_shape [of p] obtain d where
      d: "normalizePhone p = ''+'' @ d" "strip_non_digits (''+'' @ d) = d" "startsWith d ''63''"
      by auto
    from d(3) have "d \<noteq> []" by (auto simp: startsWith_def)
    with d(1,2) have "strip_non_digits (normalizePhone p) \<noteq> []" by simp
    with Some False show ?thesis
      by (simp add: normalizePhoneNumber_eq normalizePhone_idem)
  qed
qed

lemma normalizePhone_examples:
  "normalizePhone ''09171234567'' = ''+639171234567''"
  "normalizePhone ''639171234567'' = ''+639171234567''"
  "normalizePhone ''9171234567'' = ''+639171234567''"
  by (simp_all add: normalizePhone_def strip_non_digits_def is_digit_def startsWith_def)

lemma normalizePhoneNumber_examples:
  "normalizePhoneNumber (Some ''09171234567'') = Some ''+639171234567''"
  "normalizePhoneNumber (Some ''639171234567'') = Some ''+639171234567''"
  "normalizePhoneNumber (Some ''9171234567'') = Some ''+639171234567''"
  by (simp_all add: normalizePhoneNumber_eq normalizePhone_examples)
     (simp_all add: strip_non_digits_def is_digit_def)

text \<open>
  Claim C6. Normalising a phone number twice gives the same result as normalising it
  once, for every input string, in the normaliser of the courier route and in the one of
  the orders route (where a missing result normalises to a missing result); and both map
  09171234567, 639171234567 and 9171234567 to +639171234567.
\<close>

theorem C6_normalize_idempotent:
  "(\<forall>x. normalizePhone (normalizePhone x) = normalizePhone x) \<and>
   (\<forall>y. normalizePhoneNumber (normalizePhoneNumber y) = normalizePhoneNumber y) \<and>
   normalizePhone ''09171234567'' = ''+639171234567'' \<and>
   normalizePhone ''639171234567'' = ''+639171234567'' \<and>
   normalizePhone ''9171234567'' = ''+639171234567'' \<and>
   normalizePhoneNumber (Some ''09171234567'') = Some ''+639171234567'' \<and>
   normalizePhoneNumber (Some ''639171234567'') = Some ''+639171234567'' \<and>
   normalizePhoneNumber (Some ''9171234567'') = Some ''+639171234567''"
  by (simp only: normalizePhone_idem normalizePhoneNumber_idem normalizePhone_examples
      normalizePhoneNumber_examples simp_thms)

section \<open>Properties of the language table\<close>

lemma language_default:
  assumes "m \<notin> set (map fst language_table)" and "m \<notin> set object_prototype_keys"
  shows "getLanguageForMarket m = JStr ''en_US''"
  using assms
  by (simp add: getLanguageForMarket_def table_lookup_def js_or_def map_of_eq_None_iff [THEN iffD2])

text \<open>
  Claim C9 has the lookup map HK to en_HK, SG to en_SG, TH to th_TH, PH to en_PH, TW to
  zh_TW, MY to ms_MY and VN to vi_VN, and every market outside the table, such as ZZ, to
  en_US. The seven entries and ZZ come out as claimed. The market \<^verbatim>\<open>constructor\<close> is not in
  the table either, and for it the lookup returns the member that the object literal
  inherits instead of en_US.
\<close>

theorem C9_inherited_name_lookup:
  "getLanguageForMarket ''HK'' = JStr ''en_HK'' \<and>
   getLanguageForMarket ''SG'' = JStr ''en_SG'' \<and>
   getLanguageForMarket ''TH'' = JStr ''th_TH'' \<and>
   getLanguageForMarket ''PH'' = JStr ''en_PH'' \<and>
   getLanguageForMarket ''TW'' = JStr ''zh_TW'' \<and>
   getLanguageForMarket ''MY'' = JStr ''ms_MY'' \<and>
   getLanguageForMarket ''VN'' = JStr ''vi_VN'' \<and>
   getLanguageForMarket ''ZZ'' = JStr ''en_US'' \<and>
   getLanguageForMarket ''constructor'' = JBuiltin ''constructor''"
  by (simp add: getLanguageForMarket_def table_lookup_def language_table_def
      object_prototype_keys_def js_or_def)

section \<open>Properties of the conversions\<close>

lemma respond_plain [simp]:
  "respond body 200 = Responded 200 body"
  "respond body 400 = Responded 400 body"
  "respond body 500 = Responded 500 body"
  by (simp_all add: respond_def)

lemma returning_Responded [simp]: "returning (Responded status body) = Return (Responded status body)"
  by (simp add: returning_def)

text \<open>A date is built from the string of a value, so it throws exactly when the string does.\<close>

lemma date_of_throws: "(date_of rt v = DateThrows) = (toStr rt v = None)"
  by (cases v)
    (auto simp: date_of_def parsed_date_def clipped_date_def
      split: option.splits number.splits if_splits)

lemma date_of_string: "date_of rt (JStr e) = TimeValue t \<Longrightarrow> e \<noteq> []"
  by (auto simp: date_of_def parsed_date_def)

section \<open>Properties of the signer and the upstream client\<close>

lemma upstreamRequest_sent [simp]:
  "sent (snd (upstreamRequest rt secret apiKey path payload mkt sbx meth w)) = sent w"
  by (simp add: upstreamRequest_def signPayload_def Let_def)

lemma upstreamRequest_clock [simp]:
  "clock_reads (snd (upstreamRequest rt secret apiKey path payload mkt sbx meth w)) = Suc (clock_reads w)"
  by (simp add: upstreamRequest_def signPayload_def Let_def)

lemma upstreamRequest_method [simp]:
  "req_method (fst (upstreamRequest rt secret apiKey path payload mkt sbx meth w)) = meth"
  by (simp add: upstreamRequest_def signPayload_def Let_def)

lemma upstreamRequest_url [simp]:
  "req_url (fst (upstreamRequest rt secret apiKey path payload mkt sbx meth w)) = buildUpstreamUrl path sbx"
  by (simp add: upstreamRequest_def signPayload_def Let_def)

lemma proxyRequest_env:
  assumes "getEnv rt ''LALAMOVE_API_SECRET'' = Inr secret" and "getEnv rt ''LALAMOVE_API_KEY'' = Inr apiKey"
  shows "proxyRequest rt path payload mkt sbx meth w =
     (let (request, w1) = upstreamRequest rt secret apiKey path payload mkt sbx meth w;
          w2 = w1\<lparr>sent := sent w @ [request]\<rparr>
      in case upstream rt (length (sent w)) request of
           Rejected \<Rightarrow> (Inl FetchFailed, w2)
         | Response status responseBody \<Rightarrow>
             if \<not> response_ok status
             then (Inr (UpstreamError
                     (if responseBody = [] then ''Lalamove upstream error'' else responseBody)
                     status), w2)
             else (case json_parse rt responseBody of
                     None \<Rightarrow> (Inl JsonSyntaxError, w2)
                   | Some v \<Rightarrow> (Inr (UpstreamData v), w2)))"
proof -
  obtain request w1 where u: "upstreamRequest rt secret apiKey path payload mkt sbx meth w = (request, w1)"
    by (cases "upstreamRequest rt secret apiKey path payload mkt sbx meth w")
  have "sent w1 = sent w" using upstreamRequest_sent [of rt secret apiKey path payload mkt sbx meth w] u by simp
  with u assms show ?thesis
    by (simp add: proxyRequest_def Let_def split: fetch_outcome.split option.split)
qed

text \<open>What a call of the upstream client adds to the log: nothing, or one request.\<close>

lemma proxyRequest_sent:
  "sent (snd (proxyRequest rt path payload mkt sbx meth w)) = sent w \<or>
   (\<exists>r. sent (snd (proxyRequest rt path payload mkt sbx meth w)) = sent w @ [r] \<and>
        req_method r = meth \<and> req_url r = buildUpstreamUrl path sbx)"
proof (cases "getEnv rt ''LALAMOVE_API_SECRET''")
  case (Inl e)
  then show ?thesis by (simp add: proxyRequest_def)
next
  case secret: (Inr secret)
  show ?thesis
  proof (cases "getEnv rt ''LALAMOVE_API_KEY''")
    case (Inl e)
    with secret show ?thesis by (simp add: proxyRequest_def)
  next
    case (Inr apiKey)
    obtain request w1 where u: "upstreamRequest rt secret apiKey path payload mkt sbx meth w = (request, w1)"
      by (cases "upstreamRequest rt secret apiKey path payload mkt sbx meth w")
    have m: "req_method request = meth" "req_url request = buildUpstreamUrl path sbx" "sent w1 = sent w"
      using upstreamRequest_method [of rt secret apiKey path payload mkt sbx meth w]
        upstreamRequest_url [of rt secret apiKey path payload mkt sbx meth w]
        upstreamRequest_sent [of rt secret apiKey path payload mkt sbx meth w] u by simp_all
    have "sent (snd (proxyRequest rt path payload mkt sbx meth w)) = sent w @ [request]"
      using secret Inr u m
      by (simp add: proxyRequest_def Let_def split: fetch_outcome.split option.split)
    with m show ?thesis by blast
  qed
qed

text \<open>
  Claim C7. For every upstream request, the signed message is the timestamp, CR LF, the
  meth, CR LF, the path, CR LF CR LF and the body, where the body is the empty string for
  a GET request; the signed path is the path with the version prefix /v3, and the
  requested URL is the host followed by that same versioned path.
\<close>

theorem C7_signed_message_lockstep:
  assumes "getEnv rt ''LALAMOVE_API_SECRET'' = Inr secret"
    and "getEnv rt ''LALAMOVE_API_KEY'' = Inr apiKey"
  shows
    "let ts = number_to_string rt (Finite (real_of_int (clock rt (clock_reads w))));
         body = (if meth = ''GET'' then [] else json_stringify rt payload);
         host = (if sbx then ''https://rest.sandbox.lalamove.com'' else ''https://rest.lalamove.com'');
         signedPath = ''/v3'' @ path;
         signedMessage = ts @ [CHR 0x0D, CHR 0x0A] @ meth @ [CHR 0x0D, CHR 0x0A] @ signedPath
            @ [CHR 0x0D, CHR 0x0A, CHR 0x0D, CHR 0x0A] @ body;
         r = last (sent (snd (proxyRequest rt path payload mkt sbx meth w)))
     in fst (signPayload rt meth signedPath body secret w) = (ts, hmac_sha256_hex rt secret signedMessage)
      \<and> sent (snd (proxyRequest rt path payload mkt sbx meth w)) = sent w @ [r]
      \<and> map_of (req_headers r) ''Authorization''
          = Some (''hmac '' @ apiKey @ '':'' @ ts @ '':'' @ hmac_sha256_hex rt secret signedMessage)
      \<and> req_url r = host @ signedPath
      \<and> req_method r = meth"
proof -
  obtain request w1 where u: "upstreamRequest rt secret apiKey path payload mkt sbx meth w = (request, w1)"
    by (cases "upstreamRequest rt secret apiKey path payload mkt sbx meth w")
  have s: "sent (snd (proxyRequest rt path payload mkt sbx meth w)) = sent w @ [request]"
    using assms u by (simp add: proxyRequest_env Let_def split: fetch_outcome.split option.split)
  have r: "request = fst (upstreamRequest rt secret apiKey path payload mkt sbx meth w)"
    using u by simp
  show ?thesis
    unfolding Let_def s
    by (simp add: r upstreamRequest_def signPayload_def Let_def CRLF_def buildUpstreamUrl_def
        API_BASE_URL_def API_SANDBOX_URL_def)
qed

text \<open>
  Claim C8, as amended. On a response whose status is not 2xx the upstream client returns
  the error value with the upstream status and the raw response body (a fixed text when the
  body is empty) and does not throw; on a 2xx response whose body parses as JSON it returns
  the parsed value; on a 2xx response whose body does not parse, the parser's exception
  leaves the upstream client.
\<close>

theorem C8_upstream_result:
  assumes "getEnv rt ''LALAMOVE_API_SECRET'' = Inr secret"
    and "getEnv rt ''LALAMOVE_API_KEY'' = Inr apiKey"
    and "upstream rt (length (sent w))
           (fst (upstreamRequest rt secret apiKey path payload mkt sbx meth w))
         = Response status responseBody"
  shows "fst (proxyRequest rt path payload mkt sbx meth w) =
     (if \<not> (200 \<le> status \<and> status \<le> 299)
      then Inr (UpstreamError
                  (if responseBody = [] then ''Lalamove upstream error'' else responseBody) status)
      else (case json_parse rt responseBody of
              None \<Rightarrow> Inl JsonSyntaxError
            | Some v \<Rightarrow> Inr (UpstreamData v)))"
proof -
  obtain request w1 where u: "upstreamRequest rt secret apiKey path payload mkt sbx meth w = (request, w1)"
    by (cases "upstreamRequest rt secret apiKey path payload mkt sbx meth w")
  with assms show ?thesis
    by (simp add: proxyRequest_env Let_def response_ok_def split: option.split)
qed

text \<open>
  The claim as first stated, that a parse failure on a 2xx response is handled inside the
  upstream client, fails: with an upstream that answers 200 and an HTML page, the call
  ends in the syntax error.
\<close>

theorem C8_parse_failure_counterexample:
  "fst (proxyRequest (demo_runtime html_upstream []) ''/orders'' (JObj []) ''PH'' True ''POST'' w0)
     = Inl JsonSyntaxError"
  by (simp add: proxyRequest_def getEnv_def demo_runtime_def upstreamRequest_def signPayload_def
      html_upstream_def response_ok_def Let_def w0_def)

text \<open>
  Claim C5, as amended. When the three fields of the request convert without an exception
  and the delivery address is empty, or the latitude or the longitude is NaN, the quote
  handler answers with status 400 and sends nothing upstream (the world is unchanged).
  When a conversion throws, the exception leaves the handler, and nothing is sent upstream
  either.
\<close>

theorem C5_quote_validation:
  "(case (stringField rt body ''deliveryAddress'',
          toNumber rt (getField body ''deliveryLat''),
          toNumber rt (getField body ''deliveryLng'')) of
      (Some deliveryAddress, Some deliveryLat, Some deliveryLng) \<Rightarrow>
        deliveryAddress = [] \<or> deliveryLat = NaN \<or> deliveryLng = NaN \<longrightarrow>
        handleQuote rt body config w = (Responded 400 (error_body ''Missing delivery fields''), w)
    | _ \<Rightarrow> handleQuote rt body config w = (Raised TypeError, w))"
  by (auto simp add: handleQuote_def respond_def split: option.splits)

section \<open>Concrete runs of the upstream client and the quote handler\<close>

lemma demo_env:
  "getEnv (demo_runtime up docs) ''LALAMOVE_API_SECRET'' = Inr ''s3cret''"
  "getEnv (demo_runtime up docs) ''LALAMOVE_API_KEY'' = Inr ''pk_test''"
  by (simp_all add: getEnv_def demo_runtime_def)

theorem C7_signed_message_lockstep_witness:
  "getEnv (demo_runtime ok_upstream []) ''LALAMOVE_API_SECRET'' = Inr ''s3cret'' \<and>
   getEnv (demo_runtime ok_upstream []) ''LALAMOVE_API_KEY'' = Inr ''pk_test'' \<and>
   req_url (last (sent (snd (proxyRequest (demo_runtime ok_upstream []) ''/quotations/42''
       (JObj []) ''PH'' True ''GET'' w0))))
     = ''https://rest.sandbox.lalamove.com/v3/quotations/42'' \<and>
   map_of (req_headers (last (sent (snd (proxyRequest (demo_runtime ok_upstream [])
       ''/quotations/42'' (JObj []) ''PH'' True ''GET'' w0))))) ''Authorization''
     = Some (''hmac pk_test:1704067200000:hmac(s3cret,1704067200000'' @ [CHR 0x0D, CHR 0x0A]
         @ ''GET'' @ [CHR 0x0D, CHR 0x0A] @ ''/v3/quotations/42''
         @ [CHR 0x0D, CHR 0x0A, CHR 0x0D, CHR 0x0A] @ '')'')"
  using C7_signed_message_lockstep [OF demo_env [of ok_upstream "[]"], where meth = "''GET''" and sbx = True
      and path = "''/quotations/42''" and w = w0 and payload = "JObj []" and mkt = "''PH''"]
  by (simp add: Let_def demo_env) (simp add: demo_runtime_def demo_format_def w0_def)


theorem C8_upstream_result_witness:
  "fst (proxyRequest (demo_runtime unauthorized_upstream []) ''/orders'' (JObj []) ''PH'' True
      ''POST'' w0) = Inr (UpstreamError ''Unauthorized'' 401) \<and>
   fst (proxyRequest (demo_runtime ok_upstream [(''O'', order_doc)]) ''/orders'' (JObj []) ''PH''
      True ''POST'' w0) = Inr (UpstreamData order_doc)"
proof -
  have a: "upstream (demo_runtime unauthorized_upstream []) (length (sent w0))
      (fst (upstreamRequest (demo_runtime unauthorized_upstream []) ''s3cret'' ''pk_test''
         ''/orders'' (JObj []) ''PH'' True ''POST'' w0)) = Response 401 ''Unauthorized''"
    by (simp add: demo_runtime_def unauthorized_upstream_def)
  have b: "upstream (demo_runtime ok_upstream [(''O'', order_doc)]) (length (sent w0))
      (fst (upstreamRequest (demo_runtime ok_upstream [(''O'', order_doc)]) ''s3cret'' ''pk_test''
         ''/orders'' (JObj []) ''PH'' True ''POST'' w0)) = Response 201 ''O''"
    by (simp add: demo_runtime_def ok_upstream_def)
  have p: "json_parse (demo_runtime ok_upstream [(''O'', order_doc)]) ''O'' = Some order_doc"
    by (simp add: demo_runtime_def)
  from C8_upstream_result [OF demo_env a] C8_upstream_result [OF demo_env b] p
  show ?thesis by simp
qed

theorem C5_quote_validation_witness:
  "stringField (demo_runtime ok_upstream []) empty_address_body ''deliveryAddress'' = Some [] \<and>
   handleQuote (demo_runtime ok_upstream []) empty_address_body demo_config w0
     = (Responded 400 (error_body ''Missing delivery fields''), w0) \<and>
   toNumber (demo_runtime ok_upstream []) (getField unconvertible_latitude_body ''deliveryLat'')
     = None \<and>
   handleQuote (demo_runtime ok_upstream []) unconvertible_latitude_body demo_config w0
     = (Raised TypeError, w0)"
proof -
  let ?rt = "demo_runtime ok_upstream []"
  have a: "stringField ?rt empty_address_body ''deliveryAddress'' = Some []"
    "toNumber ?rt (getField empty_address_body ''deliveryLat'') = Some (Finite 14.554729)"
    "toNumber ?rt (getField empty_address_body ''deliveryLng'') = Some (Finite 121.024445)"
    by (simp_all add: stringField_def toNumber_def js_or_def getField_def empty_address_body_def)
  have b: "toNumber ?rt (getField unconvertible_latitude_body ''deliveryLat'') = None"
    by (simp add: toNumber_def getField_def unconvertible_latitude_body_def)
  from C5_quote_validation [of ?rt empty_address_body demo_config w0]
  have "handleQuote ?rt empty_address_body demo_config w0
     = (Responded 400 (error_body ''Missing delivery fields''), w0)"
    by (simp add: a)
  moreover from C5_quote_validation [of ?rt unconvertible_latitude_body demo_config w0]
  have "handleQuote ?rt unconvertible_latitude_body demo_config w0 = (Raised TypeError, w0)"
    by (simp add: b split: option.splits)
  ultimately show ?thesis using a b by simp
qed

lemma demo_proxy_ok:
  assumes "meth \<noteq> ''GET''" and "map_of docs ''O'' = Some d"
  shows "proxyRequest (demo_runtime ok_upstream docs) path payload mkt sbx meth w =
     (Inr (UpstreamData d),
      w\<lparr>clock_reads := Suc (clock_reads w),
        sent := sent w @ [fst (upstreamRequest (demo_runtime ok_upstream docs) ''s3cret'' ''pk_test''
           path payload mkt sbx meth w)]\<rparr>)"
proof -
  obtain request w1 where u: "upstreamRequest (demo_runtime ok_upstream docs) ''s3cret'' ''pk_test''
           path payload mkt sbx meth w = (request, w1)"
    by (cases "upstreamRequest (demo_runtime ok_upstream docs) ''s3cret'' ''pk_test''
           path payload mkt sbx meth w")
  have m: "req_method request = meth"
    using upstreamRequest_method [of "demo_runtime ok_upstream docs" "''s3cret''" "''pk_test''"
        path payload mkt sbx meth w] u by simp
  have w1: "w1 = w\<lparr>clock_reads := Suc (clock_reads w)\<rparr>"
    using u by (simp add: upstreamRequest_def signPayload_def Let_def)
  have up: "upstream (demo_runtime ok_upstream docs) (length (sent w)) request = Response 201 ''O''"
    using m assms by (simp add: demo_runtime_def ok_upstream_def)
  have jp: "json_parse (demo_runtime ok_upstream docs) ''O'' = Some d"
    using assms by (simp add: demo_runtime_def)
  show ?thesis
    using u up jp w1 by (simp add: proxyRequest_env [OF demo_env] response_ok_def)
qed

text \<open>
  The claim as first stated rejects every latitude that is not finite. The handler tests
  for NaN only: with an infinite latitude it sends the quotation request upstream and
  answers with the quotation.
\<close>

theorem C5_infinite_latitude_counterexample:
  "toNumber (demo_runtime ok_upstream [(''O'', quote_doc)])
      (getField infinite_quote_body ''deliveryLat'') = Some PosInfinity \<and>
   fst (handleQuote (demo_runtime ok_upstream [(''O'', quote_doc)]) infinite_quote_body
      demo_config w0)
     = Responded 200 (JObj [(''quotationId'', JStr ''1514140994227007571''),
         (''price'', JStr ''98''), (''currency'', JStr ''PHP''),
         (''expiresAt'', JStr ''2024-01-01T01:00:00.000Z'')]) \<and>
   map req_url (sent (snd (handleQuote (demo_runtime ok_upstream [(''O'', quote_doc)])
      infinite_quote_body demo_config w0)))
     = [''https://rest.sandbox.lalamove.com/v3/quotations'']"
  by (simp add: handleQuote_def Let_def demo_proxy_ok toNumber_def getField_def js_or_def
      stringField_def getLanguageForMarket_def
      infinite_quote_body_def quote_doc_def nullish_def buildUpstreamUrl_def API_SANDBOX_URL_def
      demo_config_def w0_def)

section \<open>Properties of the order handler\<close>

lemma proxyRequest_env_snd:
  assumes "getEnv rt ''LALAMOVE_API_SECRET'' = Inr secret" and "getEnv rt ''LALAMOVE_API_KEY'' = Inr apiKey"
  shows "snd (proxyRequest rt path payload mkt sbx meth w) =
      w\<lparr>clock_reads := Suc (clock_reads w),
        sent := sent w @ [fst (upstreamRequest rt secret apiKey path payload mkt sbx meth w)]\<rparr>"
proof -
  obtain request w' where u: "upstreamRequest rt secret apiKey path payload mkt sbx meth w = (request, w')"
    by (cases "upstreamRequest rt secret apiKey path payload mkt sbx meth w")
  have w': "w' = w\<lparr>clock_reads := Suc (clock_reads w)\<rparr>"
    using u by (simp add: upstreamRequest_def signPayload_def Let_def)
  show ?thesis
    using u w'
    by (simp add: proxyRequest_env [OF assms] Let_def split: fetch_outcome.split option.split)
qed

lemma proxyRequest_Inr:
  assumes "proxyRequest rt path payload mkt sbx meth w = (Inr x, w1)"
  shows "\<exists>secret apiKey.
      getEnv rt ''LALAMOVE_API_SECRET'' = Inr secret \<and> getEnv rt ''LALAMOVE_API_KEY'' = Inr apiKey \<and>
      w1 = w\<lparr>clock_reads := Suc (clock_reads w),
             sent := sent w @ [fst (upstreamRequest rt secret apiKey path payload mkt sbx meth w)]\<rparr>"
proof (cases "getEnv rt ''LALAMOVE_API_SECRET''")
  case (Inl e)
  with assms show ?thesis by (simp add: proxyRequest_def)
next
  case secret: (Inr secret)
  show ?thesis
  proof (cases "getEnv rt ''LALAMOVE_API_KEY''")
    case (Inl e)
    with secret assms show ?thesis by (simp add: proxyRequest_def)
  next
    case (Inr apiKey)
    from proxyRequest_env_snd [OF secret Inr, of path payload mkt sbx meth w] assms
    have "w1 = w\<lparr>clock_reads := Suc (clock_reads w),
             sent := sent w @ [fst (upstreamRequest rt secret apiKey path payload mkt sbx meth w)]\<rparr>"
      by simp
    with secret Inr show ?thesis by simp
  qed
qed

lemma proxyRequest_Inr_sent:
  assumes "proxyRequest rt path payload mkt sbx meth w = (Inr x, w1)"
  shows "\<exists>r. sent w1 = sent w @ [r] \<and> req_method r = meth \<and> req_url r = buildUpstreamUrl path sbx"
  using proxyRequest_Inr [OF assms] by auto

lemma proxyRequest_Inr_clock:
  assumes "proxyRequest rt path payload mkt sbx meth w = (Inr x, w1)"
  shows "clock_reads w1 = Suc (clock_reads w)"
  using proxyRequest_Inr [OF assms] by auto

lemma upstreamRequest_body:
  "meth \<noteq> ''GET'' \<Longrightarrow>
   req_body (fst (upstreamRequest rt secret apiKey path payload mkt sbx meth w))
     = Some (json_stringify rt payload)"
  by (simp add: upstreamRequest_def signPayload_def Let_def)

text \<open>Submitting an order sends exactly one request once the credentials are known to be set.\<close>

lemma submitOrder_snd:
  "snd (submitOrder rt config payload w)
     = snd (proxyRequest rt ''/orders'' payload (market config) (sandbox config) ''POST'' w)"
  by (simp add: submitOrder_def Let_def split: prod.split sum.split proxy_result.split)

lemma submitOrder_sent:
  assumes "getEnv rt ''LALAMOVE_API_SECRET'' = Inr secret"
    and "getEnv rt ''LALAMOVE_API_KEY'' = Inr apiKey"
  shows "\<exists>r. sent (snd (submitOrder rt config payload w)) = sent w @ [r] \<and>
      req_method r = ''POST'' \<and> req_url r = buildUpstreamUrl ''/orders'' (sandbox config) \<and>
      req_body r = Some (json_stringify rt payload)"
  by (simp add: submitOrder_snd proxyRequest_env_snd [OF assms] upstreamRequest_body)

lemma submitOrder_sent_any:
  "sent (snd (submitOrder rt config payload w)) = sent w \<or>
   (\<exists>r. sent (snd (submitOrder rt config payload w)) = sent w @ [r] \<and>
      req_method r = ''POST'' \<and> req_url r = buildUpstreamUrl ''/orders'' (sandbox config))"
proof -
  obtain res w' where p: "proxyRequest rt ''/orders'' payload (market config) (sandbox config) ''POST'' w = (res, w')"
    by (cases "proxyRequest rt ''/orders'' payload (market config) (sandbox config) ''POST'' w")
  have "sent (snd (submitOrder rt config payload w)) = sent w'"
    using p by (simp add: submitOrder_snd)
  with proxyRequest_sent [of rt "''/orders''" payload "market config" "sandbox config" "''POST''" w] p
  show ?thesis by simp
qed

lemma resolveStops_supplied:
  assumes "truthy (getField body ''senderStopId'')" and "truthy (getField body ''recipientStopId'')"
  shows "resolveStops rt body config quotationId w =
     (Inr (getField body ''senderStopId'', getField body ''recipientStopId'', JUndefined, False), w)"
  using assms by (simp add: resolveStops_def Let_def)

lemma resolveStops_fetched:
  assumes "\<not> truthy (getField body ''senderStopId'') \<or> \<not> truthy (getField body ''recipientStopId'')"
    and "proxyRequest rt (''/quotations/'' @ quotationId) (JObj []) (market config) (sandbox config)
           ''GET'' w = (Inr (UpstreamData d), w1)"
  shows "resolveStops rt body config quotationId w =
     (case afterFetch rt (clock rt (clock_reads w1)) (quotationOf d) of
        Throw e \<Rightarrow> Inl (Responded 500 (error_body ''Failed to fetch quotation for stop IDs''))
      | Return r \<Rightarrow> Inl r
      | Next resolved \<Rightarrow> Inr resolved,
      w1\<lparr>clock_reads := Suc (clock_reads w1)\<rparr>)"
  using assms
  by (auto simp add: resolveStops_def Let_def split: step.split)

lemma handleOrder_valid:
  assumes "stringField rt body ''quotationId'' = Some quotationId" and "quotationId \<noteq> []"
    and "stringField rt body ''recipientName'' = Some recipientName" and "recipientName \<noteq> []"
    and "stringField rt body ''recipientPhone'' = Some recipientPhone" and "recipientPhone \<noteq> []"
  shows "handleOrder rt body config w =
     (case resolveStops rt body config quotationId w of
        (Inl reply, w') \<Rightarrow> (reply, w')
      | (Inr (senderStopId, recipientStopId, quotationScheduleAt, shouldUseScheduleAt), w') \<Rightarrow>
          submitOrder rt config
            (orderPayload quotationId config recipientName recipientPhone body
               senderStopId recipientStopId quotationScheduleAt shouldUseScheduleAt) w')"
  using assms by (simp add: handleOrder_def)

text \<open>The handler's way through a fetched quotation, case by case.\<close>

lemma handleOrder_fetched:
  assumes valid: "stringField rt body ''quotationId'' = Some quotationId" "quotationId \<noteq> []"
      "stringField rt body ''recipientName'' = Some recipientName" "recipientName \<noteq> []"
      "stringField rt body ''recipientPhone'' = Some recipientPhone" "recipientPhone \<noteq> []"
    and need: "\<not> truthy (getField body ''senderStopId'') \<or> \<not> truthy (getField body ''recipientStopId'')"
    and fetch: "proxyRequest rt (''/quotations/'' @ quotationId) (JObj [])
        (market config) (sandbox config) ''GET'' w = (Inr (UpstreamData d), w1)"
  shows "handleOrder rt body config w =
     (case afterFetch rt (clock rt (clock_reads w1)) (quotationOf d) of
        Throw e \<Rightarrow>
          (Responded 500 (error_body ''Failed to fetch quotation for stop IDs''),
           w1\<lparr>clock_reads := Suc (clock_reads w1)\<rparr>)
      | Return r \<Rightarrow> (r, w1\<lparr>clock_reads := Suc (clock_reads w1)\<rparr>)
      | Next (senderStopId, recipientStopId, quotationScheduleAt, shouldUseScheduleAt) \<Rightarrow>
          submitOrder rt config
            (orderPayload quotationId config recipientName recipientPhone body
               senderStopId recipientStopId quotationScheduleAt shouldUseScheduleAt)
            (w1\<lparr>clock_reads := Suc (clock_reads w1)\<rparr>))"
  by (simp add: handleOrder_valid [OF valid] resolveStops_fetched [OF need fetch] split: step.split)

lemma checkExpiry_string:
  assumes "date_of rt (JStr e) = TimeValue t" and "t < now"
  shows "checkExpiry rt now (JStr e) = Return (Responded 400 (error_body
     (''Quotation has expired. Expired at '' @ e @ ''. Please request a new quotation.'')))"
  using assms date_of_string [OF assms(1)] by (simp add: checkExpiry_def)

text \<open>
  Claim C2. When the order handler fetches the quotation (a stop id was not supplied) and
  the quotation's expiresAt is a time before the current time, the handler answers with
  status 400 and a message that names the expiry timestamp, and the only request it has
  sent upstream is the GET of the quotation: no POST to /orders is made.
\<close>

theorem C2_expired_quotation:
  assumes valid: "stringField rt body ''quotationId'' = Some quotationId" "quotationId \<noteq> []"
      "stringField rt body ''recipientName'' = Some recipientName" "recipientName \<noteq> []"
      "stringField rt body ''recipientPhone'' = Some recipientPhone" "recipientPhone \<noteq> []"
    and need: "\<not> truthy (getField body ''senderStopId'') \<or> \<not> truthy (getField body ''recipientStopId'')"
    and fetch: "proxyRequest rt (''/quotations/'' @ quotationId) (JObj [])
        (market config) (sandbox config) ''GET'' w = (Inr (UpstreamData d), w1)"
    and expiry: "getProp (quotationOf d) ''expiresAt'' = JStr e"
      "date_of rt (JStr e) = TimeValue t" "t < clock rt (clock_reads w1)"
  shows "fst (handleOrder rt body config w)
       = Responded 400 (error_body
           (''Quotation has expired. Expired at '' @ e @ ''. Please request a new quotation.'')) \<and>
     (\<exists>g. sent (snd (handleOrder rt body config w)) = sent w @ [g] \<and> req_method g = ''GET'' \<and>
        req_url g = buildUpstreamUrl (''/quotations/'' @ quotationId) (sandbox config))"
proof -
  have x: "afterFetch rt (clock rt (clock_reads w1)) (quotationOf d) = Return (Responded 400 (error_body
     (''Quotation has expired. Expired at '' @ e @ ''. Please request a new quotation.'')))"
    using expiry by (simp add: afterFetch_def checkExpiry_string)
  have h: "handleOrder rt body config w =
      (Responded 400 (error_body
           (''Quotation has expired. Expired at '' @ e @ ''. Please request a new quotation.'')),
       w1\<lparr>clock_reads := Suc (clock_reads w1)\<rparr>)"
    by (simp add: handleOrder_fetched [OF valid need fetch] x)
  from proxyRequest_Inr_sent [OF fetch] h show ?thesis by simp
qed

lemma checkSchedule_cases:
  assumes "truthy sa" and "date_of rt sa = TimeValue t"
  shows "\<exists>shown. toStr rt sa = Some shown \<and> checkSchedule rt now sa =
     (if t < now
      then if now - t \<le> 600000 then Next False
           else Return (Responded 400 (error_body
                  (''Quotation schedule time ('' @ shown @
                   '') is too far in the past ('' @ to_fixed rt (real_of_int (now - t) / 60000) 0 @
                   '' minutes). Please request a new quotation for immediate delivery.'')))
      else Next True)"
proof -
  from assms(2) have "toStr rt sa \<noteq> None"
    using date_of_throws [of rt sa] by auto
  then obtain shown where shown: "toStr rt sa = Some shown" by auto
  show ?thesis
  proof (cases "t < now")
    case False
    with assms shown show ?thesis by (simp add: checkSchedule_def Let_def)
  next
    case True
    then have a: "\<bar>real_of_int (t - now) / (1000 * 60)\<bar> = real_of_int (now - t) / 60000"
      by simp
    have b: "(real_of_int (now - t) / 60000 \<le> 10) = (now - t \<le> 600000)"
      by (simp add: divide_le_eq) linarith
    from True assms shown show ?thesis
      unfolding checkSchedule_def Let_def a b by simp
  qed
qed

lemma orderPayload_no_schedule:
  "\<not> hasProp (getProp (orderPayload q config name phone body s r sa False) ''data'') ''scheduleAt''"
  by (simp add: orderPayload_def getField_def hasProp_def)

lemma orderPayload_schedule:
  "truthy sa \<Longrightarrow>
   getProp (getProp (orderPayload q config name phone body s r sa True) ''data'') ''scheduleAt'' = sa"
  by (simp add: orderPayload_def getField_def)

text \<open>
  Claim C3, as amended. When the fetched quotation passes the expiry check and carries a
  scheduleAt with a valid date: if the scheduleAt is in the past by at most 10 minutes and
  the quotation has both stop ids, the handler goes on and the payload it posts to /orders
  has no scheduleAt field; if it is in the past by more than 10 minutes, the handler
  answers with status 400 and a message that names the number of minutes, and sends
  nothing after the fetch; if it is in the future and the quotation has both stop ids, the
  handler goes on and data.scheduleAt of the posted payload is the quotation's scheduleAt.
\<close>

theorem C3_schedule_window:
  assumes valid: "stringField rt body ''quotationId'' = Some quotationId" "quotationId \<noteq> []"
      "stringField rt body ''recipientName'' = Some recipientName" "recipientName \<noteq> []"
      "stringField rt body ''recipientPhone'' = Some recipientPhone" "recipientPhone \<noteq> []"
    and need: "\<not> truthy (getField body ''senderStopId'') \<or> \<not> truthy (getField body ''recipientStopId'')"
    and fetch: "proxyRequest rt (''/quotations/'' @ quotationId) (JObj [])
        (market config) (sandbox config) ''GET'' w = (Inr (UpstreamData d), w1)"
    and fresh: "checkExpiry rt (clock rt (clock_reads w1)) (getProp (quotationOf d) ''expiresAt'')
        = Next ()"
    and sched: "getProp (quotationOf d) ''scheduleAt'' = sa" "truthy sa" "date_of rt sa = TimeValue t"
  shows
    "(let now = clock rt (clock_reads w1);
          usable = (truthy (fst (stopIdsOf (quotationOf d))) \<and>
                    truthy (snd (stopIdsOf (quotationOf d))));
          payload = (\<lambda>use. orderPayload quotationId config recipientName recipientPhone body
             (fst (stopIdsOf (quotationOf d))) (snd (stopIdsOf (quotationOf d))) sa use);
          final = snd (handleOrder rt body config w)
      in (t < now \<and> now - t \<le> 600000 \<and> usable \<longrightarrow>
            \<not> hasProp (getProp (payload False) ''data'') ''scheduleAt'' \<and>
            (\<exists>r. sent final = sent w1 @ [r] \<and> req_method r = ''POST'' \<and>
               req_url r = buildUpstreamUrl ''/orders'' (sandbox config) \<and>
               req_body r = Some (json_stringify rt (payload False)))) \<and>
         (t < now \<and> now - t > 600000 \<longrightarrow>
            (\<exists>shown. toStr rt sa = Some shown \<and>
               fst (handleOrder rt body config w) = Responded 400 (error_body
                 (''Quotation schedule time ('' @ shown @ '') is too far in the past ('' @
                  to_fixed rt (real_of_int (now - t) / 60000) 0 @
                  '' minutes). Please request a new quotation for immediate delivery.''))) \<and>
            sent final = sent w1) \<and>
         (now < t \<and> usable \<longrightarrow>
            getProp (getProp (payload True) ''data'') ''scheduleAt'' = sa \<and>
            (\<exists>r. sent final = sent w1 @ [r] \<and> req_method r = ''POST'' \<and>
               req_url r = buildUpstreamUrl ''/orders'' (sandbox config) \<and>
               req_body r = Some (json_stringify rt (payload True)))))"
proof -
  let ?now = "clock rt (clock_reads w1)"
  let ?w2 = "w1\<lparr>clock_reads := Suc (clock_reads w1)\<rparr>"
  let ?usable = "truthy (fst (stopIdsOf (quotationOf d))) \<and> truthy (snd (stopIdsOf (quotationOf d)))"
  let ?payload = "\<lambda>use. orderPayload quotationId config recipientName recipientPhone body
             (fst (stopIdsOf (quotationOf d))) (snd (stopIdsOf (quotationOf d))) sa use"
  from proxyRequest_Inr [OF fetch] obtain secret apiKey where
    env: "getEnv rt ''LALAMOVE_API_SECRET'' = Inr secret" "getEnv rt ''LALAMOVE_API_KEY'' = Inr apiKey"
    by blast
  from checkSchedule_cases [OF sched(2,3), of ?now] obtain shown where
    shown: "toStr rt sa = Some shown"
    and cs: "checkSchedule rt ?now sa =
     (if t < ?now
      then if ?now - t \<le> 600000 then Next False
           else Return (Responded 400 (error_body
                  (''Quotation schedule time ('' @ shown @
                   '') is too far in the past ('' @ to_fixed rt (real_of_int (?now - t) / 60000) 0 @
                   '' minutes). Please request a new quotation for immediate delivery.'')))
      else Next True)"
    by blast
  have stale: "t < ?now \<and> 600000 < ?now - t \<Longrightarrow> handleOrder rt body config w =
      (Responded 400 (error_body
                  (''Quotation schedule time ('' @ shown @
                   '') is too far in the past ('' @ to_fixed rt (real_of_int (?now - t) / 60000) 0 @
                   '' minutes). Please request a new quotation for immediate delivery.'')), ?w2)"
    using fresh sched(1)
    by (simp add: handleOrder_fetched [OF valid need fetch] afterFetch_def cs)
  have go: "?usable \<Longrightarrow> \<not> (t < ?now \<and> 600000 < ?now - t) \<Longrightarrow> handleOrder rt body config w =
      submitOrder rt config (?payload (\<not> t < ?now)) ?w2"
    using fresh sched(1)
    by (auto simp add: handleOrder_fetched [OF valid need fetch] afterFetch_def cs split_beta)
  have s: "\<And>use. \<exists>r. sent (snd (submitOrder rt config (?payload use) ?w2)) = sent w1 @ [r] \<and>
      req_method r = ''POST'' \<and> req_url r = buildUpstreamUrl ''/orders'' (sandbox config) \<and>
      req_body r = Some (json_stringify rt (?payload use))"
    using submitOrder_sent [OF env, of config _ ?w2] by simp
  show ?thesis
    unfolding Let_def
  proof (intro conjI impI)
    assume a: "t < ?now \<and> ?now - t \<le> 600000 \<and> ?usable"
    show "\<not> hasProp (getProp (?payload False) ''data'') ''scheduleAt''"
      by (rule orderPayload_no_schedule)
    from a have "handleOrder rt body config w = submitOrder rt config (?payload False) ?w2"
      using go by auto
    with s [of False]
    show "\<exists>r. sent (snd (handleOrder rt body config w)) = sent w1 @ [r] \<and> req_method r = ''POST'' \<and>
        req_url r = buildUpstreamUrl ''/orders'' (sandbox config) \<and>
        req_body r = Some (json_stringify rt (?payload False))"
      by simp
  next
    assume a: "t < ?now \<and> 600000 < ?now - t"
    with stale shown
    show "\<exists>shown. toStr rt sa = Some shown \<and>
       fst (handleOrder rt body config w) = Responded 400 (error_body
              (''Quotation schedule time ('' @ shown @ '') is too far in the past ('' @
               to_fixed rt (real_of_int (?now - t) / 60000) 0 @
               '' minutes). Please request a new quotation for immediate delivery.''))"
      by simp
    from a stale show "sent (snd (handleOrder rt body config w)) = sent w1" by simp
  next
    assume a: "?now < t \<and> ?usable"
    show "getProp (getProp (?payload True) ''data'') ''scheduleAt'' = sa"
      using sched(2) by (rule orderPayload_schedule)
    from a have "handleOrder rt body config w = submitOrder rt config (?payload True) ?w2"
      using go by auto
    with s [of True]
    show "\<exists>r. sent (snd (handleOrder rt body config w)) = sent w1 @ [r] \<and> req_method r = ''POST'' \<and>
        req_url r = buildUpstreamUrl ''/orders'' (sandbox config) \<and>
        req_body r = Some (json_stringify rt (?payload True))"
      by simp
  qed
qed

lemma checkExpiry_Return:
  assumes "checkExpiry rt now v = Return r"
  shows "\<exists>msg. r = Responded 400 (error_body msg)"
  using assms
  by (auto simp: checkExpiry_def split: if_splits date_value.splits option.splits)

lemma checkSchedule_Return:
  assumes "checkSchedule rt now v = Return r"
  shows "\<exists>msg. r = Responded 400 (error_body msg)"
  using assms
  by (auto simp: checkSchedule_def Let_def split: if_splits date_value.splits option.splits)

text \<open>
  Claim C4, as amended. When, after the quotation was fetched, the sender stop id or the
  recipient stop id is still missing, the handler fails and sends nothing upstream but the
  GET of the quotation: unless the expiry check or the schedule check has already
  rejected the quotation with status 400, the failure is answered with status 500 (with
  the message of the catch block when one of the checks has thrown, otherwise with the
  message about the stop ids).
\<close>

theorem C4_missing_stop_ids:
  assumes valid: "stringField rt body ''quotationId'' = Some quotationId" "quotationId \<noteq> []"
      "stringField rt body ''recipientName'' = Some recipientName" "recipientName \<noteq> []"
      "stringField rt body ''recipientPhone'' = Some recipientPhone" "recipientPhone \<noteq> []"
    and need: "\<not> truthy (getField body ''senderStopId'') \<or> \<not> truthy (getField body ''recipientStopId'')"
    and fetch: "proxyRequest rt (''/quotations/'' @ quotationId) (JObj [])
        (market config) (sandbox config) ''GET'' w = (Inr (UpstreamData d), w1)"
    and missing: "\<not> truthy (fst (stopIdsOf (quotationOf d))) \<or>
        \<not> truthy (snd (stopIdsOf (quotationOf d)))"
  shows
    "(\<exists>g. sent (snd (handleOrder rt body config w)) = sent w @ [g] \<and> req_method g = ''GET'') \<and>
     (let now = clock rt (clock_reads w1);
          expiry = checkExpiry rt now (getProp (quotationOf d) ''expiresAt'');
          schedule = checkSchedule rt now (getProp (quotationOf d) ''scheduleAt'')
      in if is_Return expiry \<or> (is_Next expiry \<and> is_Return schedule)
         then \<exists>msg. fst (handleOrder rt body config w) = Responded 400 (error_body msg)
         else fst (handleOrder rt body config w) = Responded 500 (error_body
           (if is_Throw expiry \<or> is_Throw schedule
            then ''Failed to fetch quotation for stop IDs''
            else ''Failed to extract stop IDs from quotation. Please check quotation response structure.'')))"
proof -
  let ?now = "clock rt (clock_reads w1)"
  let ?w2 = "w1\<lparr>clock_reads := Suc (clock_reads w1)\<rparr>"
  let ?ce = "checkExpiry rt ?now (getProp (quotationOf d) ''expiresAt'')"
  let ?cs = "checkSchedule rt ?now (getProp (quotationOf d) ''scheduleAt'')"
  have af: "afterFetch rt ?now (quotationOf d) =
     (case ?ce of
        Throw e \<Rightarrow> Throw e
      | Return r \<Rightarrow> Return r
      | Next u \<Rightarrow>
          (case ?cs of
             Throw e \<Rightarrow> Throw e
           | Return r \<Rightarrow> Return r
           | Next use \<Rightarrow> Return (Responded 500 (error_body
               ''Failed to extract stop IDs from quotation. Please check quotation response structure.''))))"
    using missing
    by (auto simp add: afterFetch_def Let_def split_beta split: step.split)
  have snd_h: "snd (handleOrder rt body config w) = ?w2"
    by (simp add: handleOrder_fetched [OF valid need fetch] af split: step.split)
  have log: "\<exists>g. sent (snd (handleOrder rt body config w)) = sent w @ [g] \<and> req_method g = ''GET''"
    using proxyRequest_Inr_sent [OF fetch] snd_h by auto
  have reply: "if is_Return ?ce \<or> (is_Next ?ce \<and> is_Return ?cs)
         then \<exists>msg. fst (handleOrder rt body config w) = Responded 400 (error_body msg)
         else fst (handleOrder rt body config w) = Responded 500 (error_body
           (if is_Throw ?ce \<or> is_Throw ?cs
            then ''Failed to fetch quotation for stop IDs''
            else ''Failed to extract stop IDs from quotation. Please check quotation response structure.''))"
  proof (cases ?ce)
    case (Throw e)
    then show ?thesis
      by (simp add: handleOrder_fetched [OF valid need fetch] af)
  next
    case (Return r)
    with checkExpiry_Return [OF Return] show ?thesis
      by (auto simp add: handleOrder_fetched [OF valid need fetch] af)
  next
    case expiry: (Next u)
    show ?thesis
    proof (cases ?cs)
      case (Throw e)
      with expiry show ?thesis
        by (simp add: handleOrder_fetched [OF valid need fetch] af)
    next
      case (Return r)
      with expiry checkSchedule_Return [OF Return] show ?thesis
        by (auto simp add: handleOrder_fetched [OF valid need fetch] af)
    next
      case (Next use)
      with expiry show ?thesis
        by (simp add: handleOrder_fetched [OF valid need fetch] af)
    qed
  qed
  from log reply show ?thesis by (simp add: Let_def)
qed

text \<open>
  Claim C10. When the caller supplies both stop ids, the order handler goes from the
  field validation straight to the submission, in the world it was called in: no
  quotation is fetched and the clock is not read, so neither the expiry nor the schedule
  is checked, whatever the upstream would say about the quotation; the payload has no
  scheduleAt field, and the handler sends at most one request, a POST to /orders. (A
  request whose fields do not convert to strings ends in the exception before anything
  is sent.)
\<close>

theorem C10_supplied_stop_ids:
  assumes "truthy (getField body ''senderStopId'')" and "truthy (getField body ''recipientStopId'')"
  shows
    "(let payload = (\<lambda>quotationId recipientName recipientPhone.
             orderPayload quotationId config recipientName recipientPhone body
               (getField body ''senderStopId'') (getField body ''recipientStopId'') JUndefined False);
          final = snd (handleOrder rt body config w)
      in handleOrder rt body config w =
           (case (stringField rt body ''quotationId'', stringField rt body ''recipientName'',
                  stringField rt body ''recipientPhone'') of
              (Some quotationId, Some recipientName, Some recipientPhone) \<Rightarrow>
                if quotationId = [] \<or> recipientName = [] \<or> recipientPhone = []
                then (Responded 400 (error_body ''Missing order fields''), w)
                else submitOrder rt config (payload quotationId recipientName recipientPhone) w
            | _ \<Rightarrow> (Raised TypeError, w)) \<and>
         (\<forall>quotationId recipientName recipientPhone.
            \<not> hasProp (getProp (payload quotationId recipientName recipientPhone) ''data'')
               ''scheduleAt'') \<and>
         (sent final = sent w \<or>
          (\<exists>r. sent final = sent w @ [r] \<and> req_method r = ''POST'' \<and>
             req_url r = buildUpstreamUrl ''/orders'' (sandbox config))))"
proof -
  let ?payload = "\<lambda>quotationId recipientName recipientPhone.
             orderPayload quotationId config recipientName recipientPhone body
               (getField body ''senderStopId'') (getField body ''recipientStopId'') JUndefined False"
  have h: "handleOrder rt body config w =
           (case (stringField rt body ''quotationId'', stringField rt body ''recipientName'',
                  stringField rt body ''recipientPhone'') of
              (Some quotationId, Some recipientName, Some recipientPhone) \<Rightarrow>
                if quotationId = [] \<or> recipientName = [] \<or> recipientPhone = []
                then (Responded 400 (error_body ''Missing order fields''), w)
                else submitOrder rt config (?payload quotationId recipientName recipientPhone) w
            | _ \<Rightarrow> (Raised TypeError, w))"
    by (simp add: handleOrder_def resolveStops_supplied [OF assms] split: option.split)
  have s: "sent (snd (handleOrder rt body config w)) = sent w \<or>
          (\<exists>r. sent (snd (handleOrder rt body config w)) = sent w @ [r] \<and> req_method r = ''POST'' \<and>
             req_url r = buildUpstreamUrl ''/orders'' (sandbox config))"
    unfolding h
    using submitOrder_sent_any [of rt config _ w]
    by (auto split: option.split)
  have p: "\<forall>quotationId recipientName recipientPhone.
            \<not> hasProp (getProp (?payload quotationId recipientName recipientPhone) ''data'')
               ''scheduleAt''"
    by (simp add: orderPayload_no_schedule)
  from h s p show ?thesis unfolding Let_def by blast
qed

section \<open>Concrete runs of the order handler\<close>

lemma demo_proxy_get:
  assumes "map_of docs ''Q'' = Some d"
  shows "proxyRequest (demo_runtime ok_upstream docs) path payload mkt sbx ''GET'' w =
     (Inr (UpstreamData d),
      w\<lparr>clock_reads := Suc (clock_reads w),
        sent := sent w @ [fst (upstreamRequest (demo_runtime ok_upstream docs) ''s3cret'' ''pk_test''
           path payload mkt sbx ''GET'' w)]\<rparr>)"
proof -
  obtain request w1 where u: "upstreamRequest (demo_runtime ok_upstream docs) ''s3cret'' ''pk_test''
           path payload mkt sbx ''GET'' w = (request, w1)"
    by (cases "upstreamRequest (demo_runtime ok_upstream docs) ''s3cret'' ''pk_test''
           path payload mkt sbx ''GET'' w")
  have m: "req_method request = ''GET''"
    using upstreamRequest_method [of "demo_runtime ok_upstream docs" "''s3cret''" "''pk_test''"
        path payload mkt sbx "''GET''" w] u by simp
  have w1: "w1 = w\<lparr>clock_reads := Suc (clock_reads w)\<rparr>"
    using u by (simp add: upstreamRequest_def signPayload_def Let_def)
  have up: "upstream (demo_runtime ok_upstream docs) (length (sent w)) request = Response 200 ''Q''"
    using m by (simp add: demo_runtime_def ok_upstream_def)
  have jp: "json_parse (demo_runtime ok_upstream docs) ''Q'' = Some d"
    using assms by (simp add: demo_runtime_def)
  show ?thesis
    using u up jp w1 by (simp add: proxyRequest_env [OF demo_env] response_ok_def)
qed

lemma order_body_fields:
  "stringField rt order_body ''quotationId'' = Some ''1514140994227007571''"
  "stringField rt order_body ''recipientName'' = Some ''Juan dela Cruz''"
  "stringField rt order_body ''recipientPhone'' = Some ''09171234567''"
  "\<not> truthy (getField order_body ''senderStopId'')"
  by (simp_all add: stringField_def order_body_def getField_def js_or_def)

lemma quotation_doc_fields:
  "getProp (quotationOf (quotation_doc e sa stops)) ''expiresAt'' = JStr e"
  "getProp (quotationOf (quotation_doc e sa stops)) ''scheduleAt'' = sa"
  "stopIdsOf (quotationOf (quotation_doc e sa two_stops)) = (JStr ''stop-1'', JStr ''stop-2'')"
  "stopIdsOf (quotationOf (quotation_doc e sa (JArr []))) = (JStr [], JStr [])"
  by (simp_all add: quotationOf_def quotation_doc_def getField_def js_or_def stopIdsOf_def
      two_stops_def Let_def)

lemma demo_dates_eval:
  "date_of (demo_runtime up docs) (JStr ''2023-12-31T23:00:00.000Z'') = TimeValue 1704063600000"
  "date_of (demo_runtime up docs) (JStr ''2023-12-31T23:45:00.000Z'') = TimeValue 1704066300000"
  "date_of (demo_runtime up docs) (JStr ''2023-12-31T23:55:00.000Z'') = TimeValue 1704066900000"
  "date_of (demo_runtime up docs) (JStr ''2024-01-01T01:00:00.000Z'') = TimeValue 1704070800000"
  "clock (demo_runtime up docs) n = 1704067200000"
  by (simp_all add: date_of_def parsed_date_def demo_runtime_def demo_dates_def)

lemma order_body_valid:
  "''1514140994227007571'' \<noteq> []" "''Juan dela Cruz'' \<noteq> []" "''09171234567'' \<noteq> []"
  "\<not> truthy (getField order_body ''senderStopId'') \<or> \<not> truthy (getField order_body ''recipientStopId'')"
  by (simp_all add: order_body_fields)

theorem C2_expired_quotation_witness:
  "date_of (demo_runtime ok_upstream expired_docs) (JStr ''2023-12-31T23:00:00.000Z'')
     = TimeValue 1704063600000 \<and>
   1704063600000 < clock (demo_runtime ok_upstream expired_docs) 1 \<and>
   fst (handleOrder (demo_runtime ok_upstream expired_docs) order_body demo_config w0)
     = Responded 400 (error_body
         ''Quotation has expired. Expired at 2023-12-31T23:00:00.000Z. Please request a new quotation.'') \<and>
   map req_method (sent (snd (handleOrder (demo_runtime ok_upstream expired_docs) order_body
      demo_config w0))) = [''GET'']"
proof -
  let ?rt = "demo_runtime ok_upstream expired_docs"
  let ?w1 = "w0\<lparr>clock_reads := Suc (clock_reads w0),
        sent := sent w0 @ [fst (upstreamRequest ?rt ''s3cret'' ''pk_test''
           (''/quotations/'' @ ''1514140994227007571'') (JObj [])
           (market demo_config) (sandbox demo_config) ''GET'' w0)]\<rparr>"
  have q: "map_of expired_docs ''Q'' = Some (quotation_doc ''2023-12-31T23:00:00.000Z'' JUndefined two_stops)"
    by (simp add: expired_docs_def)
  have t: "1704063600000 < clock ?rt (clock_reads ?w1)"
    by (simp add: demo_dates_eval)
  from C2_expired_quotation [of ?rt order_body _ _ _ demo_config w0 _ ?w1,
      OF order_body_fields(1) order_body_valid(1) order_body_fields(2) order_body_valid(2)
        order_body_fields(3) order_body_valid(3) order_body_valid(4) demo_proxy_get [OF q]
        quotation_doc_fields(1) demo_dates_eval(1) t]
  show ?thesis
    by (auto simp add: demo_dates_eval w0_def)
qed

lemma demo_fresh:
  "checkExpiry (demo_runtime up docs) 1704067200000 (JStr ''2024-01-01T01:00:00.000Z'') = Next ()"
  by (simp add: checkExpiry_def demo_dates_eval)

lemma demo_stringify_payload:
  "json_stringify (demo_runtime up docs) (orderPayload q config name phone body s r sa False) = ''{data}''"
  "json_stringify (demo_runtime up docs)
     (orderPayload q config name phone body s r (JStr ''2024-01-01T01:00:00.000Z'') True)
     = ''{data+scheduleAt}''"
  by (simp_all add: demo_runtime_def demo_stringify_def orderPayload_def getField_def)

lemma demo_to_fixed: "to_fixed (demo_runtime up docs) 15 0 = ''15''"
  by (simp add: demo_runtime_def)

theorem C3_schedule_window_witness:
  "req_body (last (sent (snd (handleOrder
      (demo_runtime ok_upstream (scheduled_docs ''2023-12-31T23:55:00.000Z''))
      order_body demo_config w0)))) = Some ''{data}'' \<and>
   fst (handleOrder (demo_runtime ok_upstream (scheduled_docs ''2023-12-31T23:45:00.000Z''))
      order_body demo_config w0)
     = Responded 400 (error_body
         ''Quotation schedule time (2023-12-31T23:45:00.000Z) is too far in the past (15 minutes). Please request a new quotation for immediate delivery.'') \<and>
   map req_method (sent (snd (handleOrder
      (demo_runtime ok_upstream (scheduled_docs ''2023-12-31T23:45:00.000Z''))
      order_body demo_config w0))) = [''GET''] \<and>
   req_body (last (sent (snd (handleOrder
      (demo_runtime ok_upstream (scheduled_docs ''2024-01-01T01:00:00.000Z''))
      order_body demo_config w0)))) = Some ''{data+scheduleAt}''"
proof -
  let ?rt = "\<lambda>sa. demo_runtime ok_upstream (scheduled_docs sa)"
  let ?w1 = "\<lambda>sa. w0\<lparr>clock_reads := Suc (clock_reads w0),
        sent := sent w0 @ [fst (upstreamRequest (?rt sa) ''s3cret'' ''pk_test''
           (''/quotations/'' @ ''1514140994227007571'') (JObj [])
           (market demo_config) (sandbox demo_config) ''GET'' w0)]\<rparr>"
  have q: "\<And>sa. map_of (scheduled_docs sa) ''Q''
      = Some (quotation_doc ''2024-01-01T01:00:00.000Z'' (JStr sa) two_stops)"
    by (simp add: scheduled_docs_def)
  have fresh: "\<And>sa. checkExpiry (?rt sa) (clock (?rt sa) (clock_reads (?w1 sa)))
      (getProp (quotationOf (quotation_doc ''2024-01-01T01:00:00.000Z'' (JStr sa) two_stops))
         ''expiresAt'') = Next ()"
    by (simp add: quotation_doc_fields demo_dates_eval demo_fresh)
  have five: "req_body (last (sent (snd (handleOrder (?rt ''2023-12-31T23:55:00.000Z'')
      order_body demo_config w0)))) = Some ''{data}''"
    using C3_schedule_window [of "?rt ''2023-12-31T23:55:00.000Z''" order_body _ _ _ demo_config w0 _
        "?w1 ''2023-12-31T23:55:00.000Z''" "JStr ''2023-12-31T23:55:00.000Z''",
        OF order_body_fields(1) order_body_valid(1) order_body_fields(2) order_body_valid(2)
          order_body_fields(3) order_body_valid(3) order_body_valid(4) demo_proxy_get [OF q]
          fresh quotation_doc_fields(2) _ demo_dates_eval(3)]
    by (auto simp add: quotation_doc_fields demo_dates_eval Let_def demo_stringify_payload)
  have fifteen: "fst (handleOrder (?rt ''2023-12-31T23:45:00.000Z'') order_body demo_config w0)
     = Responded 400 (error_body
         ''Quotation schedule time (2023-12-31T23:45:00.000Z) is too far in the past (15 minutes). Please request a new quotation for immediate delivery.'') \<and>
     map req_method (sent (snd (handleOrder (?rt ''2023-12-31T23:45:00.000Z'')
        order_body demo_config w0))) = [''GET'']"
    using C3_schedule_window [of "?rt ''2023-12-31T23:45:00.000Z''" order_body _ _ _ demo_config w0 _
        "?w1 ''2023-12-31T23:45:00.000Z''" "JStr ''2023-12-31T23:45:00.000Z''",
        OF order_body_fields(1) order_body_valid(1) order_body_fields(2) order_body_valid(2)
          order_body_fields(3) order_body_valid(3) order_body_valid(4) demo_proxy_get [OF q]
          fresh quotation_doc_fields(2) _ demo_dates_eval(2)]
    by (auto simp add: quotation_doc_fields demo_dates_eval Let_def demo_to_fixed w0_def)
  have future: "req_body (last (sent (snd (handleOrder (?rt ''2024-01-01T01:00:00.000Z'')
      order_body demo_config w0)))) = Some ''{data+scheduleAt}''"
    using C3_schedule_window [of "?rt ''2024-01-01T01:00:00.000Z''" order_body _ _ _ demo_config w0 _
        "?w1 ''2024-01-01T01:00:00.000Z''" "JStr ''2024-01-01T01:00:00.000Z''",
        OF order_body_fields(1) order_body_valid(1) order_body_fields(2) order_body_valid(2)
          order_body_fields(3) order_body_valid(3) order_body_valid(4) demo_proxy_get [OF q]
          fresh quotation_doc_fields(2) _ demo_dates_eval(4)]
    by (auto simp add: quotation_doc_fields demo_dates_eval Let_def demo_stringify_payload)
  from five fifteen future show ?thesis by simp
qed

text \<open>
  The claim as first stated lets the handler go on to /orders whenever the scheduleAt is
  at most 10 minutes in the past. The expiry check comes first: a quotation that expired
  an hour ago, with a scheduleAt 5 minutes in the past and both stop ids, is answered with
  the expiry error, and nothing is posted to /orders.
\<close>

theorem C3_expired_within_tolerance_counterexample:
  "fst (handleOrder (demo_runtime ok_upstream expired_scheduled_docs) order_body demo_config w0)
     = Responded 400 (error_body
         ''Quotation has expired. Expired at 2023-12-31T23:00:00.000Z. Please request a new quotation.'') \<and>
   map req_method (sent (snd (handleOrder (demo_runtime ok_upstream expired_scheduled_docs)
      order_body demo_config w0))) = [''GET'']"
proof -
  have q: "map_of expired_scheduled_docs ''Q''
      = Some (quotation_doc ''2023-12-31T23:00:00.000Z'' (JStr ''2023-12-31T23:55:00.000Z'')
          two_stops)"
    by (simp add: expired_scheduled_docs_def)
  show ?thesis
    by (simp add: handleOrder_fetched [OF order_body_fields(1) order_body_valid(1)
          order_body_fields(2) order_body_valid(2) order_body_fields(3) order_body_valid(3)
          order_body_valid(4) demo_proxy_get [OF q]]
        afterFetch_def quotation_doc_fields demo_dates_eval
        checkExpiry_string [OF demo_dates_eval(1)] w0_def)
qed

lemma demo_no_schedule:
  "checkSchedule rt now JUndefined = Next False"
  by (simp add: checkSchedule_def)

lemma object_expiry_throws:
  "checkExpiry rt now (JObj [(''toString'', JNum (Finite 1))]) = Throw TypeError"
  by (simp add: checkExpiry_def date_of_def)

theorem C4_missing_stop_ids_witness:
  "stopIdsOf (quotationOf (quotation_doc ''2024-01-01T01:00:00.000Z'' JUndefined
      (JArr [JObj [(''stopId'', JStr ''stop-1'')]]))) = (JStr ''stop-1'', JStr []) \<and>
   fst (handleOrder (demo_runtime ok_upstream one_stop_docs) order_body demo_config w0)
     = Responded 500 (error_body
        ''Failed to extract stop IDs from quotation. Please check quotation response structure.'') \<and>
   map req_method (sent (snd (handleOrder (demo_runtime ok_upstream one_stop_docs) order_body
      demo_config w0))) = [''GET''] \<and>
   fst (handleOrder (demo_runtime ok_upstream object_expiry_docs) order_body demo_config w0)
     = Responded 500 (error_body ''Failed to fetch quotation for stop IDs'')"
proof -
  let ?rt = "demo_runtime ok_upstream one_stop_docs"
  let ?d = "quotation_doc ''2024-01-01T01:00:00.000Z'' JUndefined
      (JArr [JObj [(''stopId'', JStr ''stop-1'')]])"
  let ?w1 = "w0\<lparr>clock_reads := Suc (clock_reads w0),
        sent := sent w0 @ [fst (upstreamRequest ?rt ''s3cret'' ''pk_test''
           (''/quotations/'' @ ''1514140994227007571'') (JObj [])
           (market demo_config) (sandbox demo_config) ''GET'' w0)]\<rparr>"
  have q: "map_of one_stop_docs ''Q'' = Some ?d"
    by (simp add: one_stop_docs_def)
  have ids: "stopIdsOf (quotationOf ?d) = (JStr ''stop-1'', JStr [])"
    by (simp add: quotationOf_def quotation_doc_def getField_def js_or_def stopIdsOf_def Let_def)
  have missing: "\<not> truthy (fst (stopIdsOf (quotationOf ?d))) \<or> \<not> truthy (snd (stopIdsOf (quotationOf ?d)))"
    by (simp add: ids)
  from C4_missing_stop_ids [of ?rt order_body _ _ _ demo_config w0 ?d ?w1,
      OF order_body_fields(1) order_body_valid(1) order_body_fields(2) order_body_valid(2)
        order_body_fields(3) order_body_valid(3) order_body_valid(4) demo_proxy_get [OF q] missing]
  have one: "fst (handleOrder ?rt order_body demo_config w0)
     = Responded 500 (error_body
        ''Failed to extract stop IDs from quotation. Please check quotation response structure.'') \<and>
     map req_method (sent (snd (handleOrder ?rt order_body demo_config w0))) = [''GET'']"
    by (auto simp add: quotation_doc_fields demo_dates_eval demo_fresh demo_no_schedule Let_def
        w0_def)
  let ?rt' = "demo_runtime ok_upstream object_expiry_docs"
  let ?d' = "object_expiry_doc (JStr ''2023-12-31T23:45:00.000Z'') (JArr [])"
  let ?w1' = "w0\<lparr>clock_reads := Suc (clock_reads w0),
        sent := sent w0 @ [fst (upstreamRequest ?rt' ''s3cret'' ''pk_test''
           (''/quotations/'' @ ''1514140994227007571'') (JObj [])
           (market demo_config) (sandbox demo_config) ''GET'' w0)]\<rparr>"
  have q': "map_of object_expiry_docs ''Q'' = Some ?d'"
    by (simp add: object_expiry_docs_def)
  have fields': "getProp (quotationOf ?d') ''expiresAt'' = JObj [(''toString'', JNum (Finite 1))]"
    "stopIdsOf (quotationOf ?d') = (JStr [], JStr [])"
    by (simp_all add: quotationOf_def object_expiry_doc_def getField_def js_or_def stopIdsOf_def
        Let_def)
  have missing': "\<not> truthy (fst (stopIdsOf (quotationOf ?d'))) \<or> \<not> truthy (snd (stopIdsOf (quotationOf ?d')))"
    by (simp add: fields')
  from C4_missing_stop_ids [of ?rt' order_body _ _ _ demo_config w0 ?d' ?w1',
      OF order_body_fields(1) order_body_valid(1) order_body_fields(2) order_body_valid(2)
        order_body_fields(3) order_body_valid(3) order_body_valid(4) demo_proxy_get [OF q'] missing']
  have two: "fst (handleOrder ?rt' order_body demo_config w0)
     = Responded 500 (error_body ''Failed to fetch quotation for stop IDs'')"
    by (simp add: fields' object_expiry_throws Let_def)
  from ids one two show ?thesis by simp
qed

text \<open>
  The claim as first stated has the failure surfaced with status 400. With a quotation
  that is neither expired nor scheduled and whose stop list is empty, the handler answers
  with status 500.
\<close>

theorem C4_status_500_counterexample:
  "fst (handleOrder (demo_runtime ok_upstream no_stops_docs) order_body demo_config w0)
     = Responded 500 (error_body
        ''Failed to extract stop IDs from quotation. Please check quotation response structure.'')"
proof -
  have q: "map_of no_stops_docs ''Q''
      = Some (quotation_doc ''2024-01-01T01:00:00.000Z'' JUndefined (JArr []))"
    by (simp add: no_stops_docs_def)
  show ?thesis
    by (simp add: handleOrder_fetched [OF order_body_fields(1) order_body_valid(1)
          order_body_fields(2) order_body_valid(2) order_body_fields(3) order_body_valid(3)
          order_body_valid(4) demo_proxy_get [OF q]]
        afterFetch_def quotation_doc_fields demo_dates_eval demo_fresh demo_no_schedule w0_def)
qed

lemma order_body_with_stops_fields:
  "stringField rt order_body_with_stops ''quotationId'' = Some ''1514140994227007571''"
  "stringField rt order_body_with_stops ''recipientName'' = Some ''Juan dela Cruz''"
  "stringField rt order_body_with_stops ''recipientPhone'' = Some ''09171234567''"
  "getField order_body_with_stops ''senderStopId'' = JStr ''stop-1''"
  "getField order_body_with_stops ''recipientStopId'' = JStr ''stop-2''"
  by (simp_all add: stringField_def order_body_with_stops_def order_body_def getField_def js_or_def)

theorem C10_supplied_stop_ids_witness:
  "truthy (getField order_body_with_stops ''senderStopId'') \<and>
   truthy (getField order_body_with_stops ''recipientStopId'') \<and>
   checkExpiry (demo_runtime ok_upstream expired_docs) 1704067200000
     (JStr ''2023-12-31T23:00:00.000Z'')
     = Return (Responded 400 (error_body
         ''Quotation has expired. Expired at 2023-12-31T23:00:00.000Z. Please request a new quotation.'')) \<and>
   fst (handleOrder (demo_runtime ok_upstream expired_docs) order_body_with_stops demo_config w0)
     = Responded 200 (JObj [(''orderId'', JStr ''107900701184''),
         (''status'', JStr ''ASSIGNING_DRIVER''),
         (''shareLink'', JStr ''https://share.sandbox.lalamove.com/x''),
         (''driverId'', JStr [])]) \<and>
   map req_method (sent (snd (handleOrder (demo_runtime ok_upstream expired_docs)
      order_body_with_stops demo_config w0))) = [''POST''] \<and>
   map req_body (sent (snd (handleOrder (demo_runtime ok_upstream expired_docs)
      order_body_with_stops demo_config w0))) = [Some ''{data}'']"
proof -
  let ?rt = "demo_runtime ok_upstream expired_docs"
  have s: "truthy (getField order_body_with_stops ''senderStopId'')"
    and r: "truthy (getField order_body_with_stops ''recipientStopId'')"
    by (simp_all add: order_body_with_stops_fields)
  have o: "map_of expired_docs ''O'' = Some order_doc"
    by (simp add: expired_docs_def)
  have x: "checkExpiry ?rt 1704067200000 (JStr ''2023-12-31T23:00:00.000Z'')
     = Return (Responded 400 (error_body
         ''Quotation has expired. Expired at 2023-12-31T23:00:00.000Z. Please request a new quotation.''))"
    by (simp add: checkExpiry_string [OF demo_dates_eval(1)])
  from C10_supplied_stop_ids [OF s r, where rt = ?rt and config = demo_config and w = w0]
  have h: "handleOrder ?rt order_body_with_stops demo_config w0 =
      submitOrder ?rt demo_config
        (orderPayload ''1514140994227007571'' demo_config ''Juan dela Cruz'' ''09171234567''
           order_body_with_stops (JStr ''stop-1'') (JStr ''stop-2'') JUndefined False) w0"
    by (simp add: Let_def order_body_with_stops_fields)
  have "fst (handleOrder ?rt order_body_with_stops demo_config w0)
     = Responded 200 (JObj [(''orderId'', JStr ''107900701184''),
         (''status'', JStr ''ASSIGNING_DRIVER''),
         (''shareLink'', JStr ''https://share.sandbox.lalamove.com/x''),
         (''driverId'', JStr [])]) \<and>
   map req_method (sent (snd (handleOrder ?rt order_body_with_stops demo_config w0))) = [''POST''] \<and>
   map req_body (sent (snd (handleOrder ?rt order_body_with_stops demo_config w0)))
     = [Some ''{data}'']"
    unfolding h
    by (simp add: submitOrder_def demo_proxy_ok [OF _ o] order_doc_def nullish_def getField_def
        upstreamRequest_body demo_stringify_payload w0_def)
  with s r x show ?thesis by simp
qed

section \<open>The confirmation trigger\<close>

lemma PATCH_bulk_no_jobs: "snd (snd (PATCH_bulk db body)) = []"
  by (simp add: PATCH_bulk_def Let_def split: jsval.split option.split)

lemma PATCH_order_trigger:
  assumes "db ident = Some cur" and "ident \<noteq> []"
    and "getField body ''status'' = JStr ''confirmed''"
    and "order_status cur \<noteq> ''confirmed''" and "service_type cur = ''delivery''"
    and "truthy (lalamove_quotation_id cur)" and "\<not> truthy (lalamove_order_id cur)"
  shows "\<exists>data. PATCH_order db ident body
      = (PatchOk data, db(ident \<mapsto> data), [\<lparr> job_id = ident, job_data = data \<rparr>]) \<and>
      order_status data = ''confirmed'' \<and> lalamove_quotation_id data = lalamove_quotation_id cur"
  using assms
  by (simp add: PATCH_order_def Let_def valid_status_def validStatuses_def
      statusChangingToConfirmed_def applyUpdate_def status_text_def)

lemma PATCH_order_guard:
  assumes "db ident = Some cur" and "truthy (lalamove_order_id cur)"
  shows "snd (snd (PATCH_order db ident body)) = []"
  using assms
  by (simp add: PATCH_order_def Let_def statusChangingToConfirmed_def)

lemma PATCH_order_already_confirmed:
  assumes "db ident = Some cur" and "order_status cur = ''confirmed''"
  shows "snd (snd (PATCH_order db ident body)) = []"
  using assms
  by (simp add: PATCH_order_def Let_def statusChangingToConfirmed_def)

lemma runJob_one_call:
  assumes "getSiteSettings env = Some st" and "buildLalamoveConfig env st = Some cfg"
    and "anon_key env = Some key" and "key \<noteq> []"
    and "truthy (lalamove_quotation_id (job_data job))"
  shows "length (snd (runJob env db job)) = 1"
  using assms
  by (simp add: runJob_def createLalamoveOrder_def Let_def split: option.split prod.split)

text \<open>
  Claim C1 asks that every route that sets a delivery order with a quotation and without a
  courier order to confirmed starts the courier order creation exactly once. On the order
  of the scenario the bulk route confirms the order and starts no background task, so the
  order endpoint is never called; the single-order route, given the same order, confirms
  it and starts one task, which calls the order endpoint once.
\<close>

theorem C1_bulk_confirm_skips_trigger:
  "statusChangingToConfirmed (JStr ''confirmed'') (demo_table ''o1'') \<and>
   (case PATCH_bulk demo_table bulk_confirm_body of
      (reply, db', jobs) \<Rightarrow>
        reply = BulkOk 1 \<and> map_option order_status (db' ''o1'') = Some ''confirmed'' \<and>
        jobs = [] \<and> snd (runJobs demo_trigger_env db' jobs) = []) \<and>
   (case PATCH_order demo_table ''o1'' confirm_body of
      (reply, db', jobs) \<Rightarrow>
        map_option order_status (db' ''o1'') = Some ''confirmed'' \<and>
        length jobs = 1 \<and> length (snd (runJobs demo_trigger_env db' jobs)) = 1)"
  by (simp add: statusChangingToConfirmed_def demo_table_def pending_delivery_def
      PATCH_bulk_def bulk_confirm_body_def getField_def valid_status_def validStatuses_def
      bulk_update_def status_text_def PATCH_order_def confirm_body_def applyUpdate_def
      runJob_def createLalamoveOrder_def demo_trigger_env_def Let_def order_doc_def nullish_def
      normalizePhoneNumber_eq strip_non_digits_def is_digit_def)

end
